theory Spec2Isabelle
  imports Main "HOL-Library.Sublist" "HOL-Library.Multiset"
begin

section \<open>Python strings and values\<close>

text \<open>
  Strings are lists of characters. Isabelle's \<open>char\<close> has 256 values, so the model
  covers Python strings over the code points 0 to 255; \<open>length\<close> is Python's \<open>len\<close>
  on them.
\<close>

text \<open>\<open>sep.join(xs)\<close>.\<close>

fun join :: "string \<Rightarrow> string list \<Rightarrow> string" where
  "join sep [] = []"
| "join sep [x] = x"
| "join sep (x # y # ys) = x @ sep @ join sep (y # ys)"

text \<open>\<open>str(n)\<close> for an integer: decimal digits, a minus sign when negative.\<close>

fun digits :: "nat \<Rightarrow> string" where
  "digits n = (if n < 10 then [''0123456789'' ! n]
               else digits (n div 10) @ [''0123456789'' ! (n mod 10)])"

declare digits.simps [simp del]

definition str_int :: "int \<Rightarrow> string" where
  "str_int i = (if i < 0 then CHR ''-'' # digits (nat (- i)) else digits (nat i))"

text \<open>
  \<open>repr(s)\<close> for a string: single quotes unless the string has a single quote and no
  double quote; backslash, the delimiter, newline, carriage return and tab are escaped
  with a backslash, every other non-printable code point as \<open>\xNN\<close>.
\<close>

definition printable :: "char \<Rightarrow> bool" where
  "printable c = (let n = (of_char c :: nat)
                  in (32 \<le> n \<and> n < 127) \<or> (161 \<le> n \<and> n \<noteq> 173))"

definition hex2 :: "char \<Rightarrow> string" where
  "hex2 c = (let n = (of_char c :: nat)
             in [''0123456789abcdef'' ! (n div 16), ''0123456789abcdef'' ! (n mod 16)])"

definition repr_char :: "char \<Rightarrow> char \<Rightarrow> string" where
  "repr_char q c =
     (if c = q \<or> c = CHR 0x5C then [CHR 0x5C, c]
      else if c = CHR 0x09 then [CHR 0x5C, CHR ''t'']
      else if c = CHR 0x0A then [CHR 0x5C, CHR ''n'']
      else if c = CHR 0x0D then [CHR 0x5C, CHR ''r'']
      else if printable c then [c]
      else [CHR 0x5C, CHR ''x''] @ hex2 c)"

definition py_repr :: "string \<Rightarrow> string" where
  "py_repr s =
     (let q = (if CHR 0x27 \<in> set s \<and> CHR 0x22 \<notin> set s then CHR 0x22 else CHR 0x27)
      in [q] @ concat (map (repr_char q) s) @ [q])"

text \<open>
  \<open>int(s)\<close> for a string, base 10: surrounding white space is dropped, then an optional
  sign, then decimal digits, with single underscores allowed between digits. Anything
  else raises \<open>ValueError\<close> (here \<open>None\<close>). The white space \<open>int\<close> drops is the ASCII white
  space (tab to carriage return, and the space) and, beyond ASCII, the code points
  Unicode classes as spaces (133 and 160 here); the separators 28 to 31 are not dropped.
  The interpreter's limit on the number of digits of a literal is not modelled.
\<close>

definition py_isspace :: "char \<Rightarrow> bool" where
  "py_isspace c = ((of_char c :: nat) \<in> {9, 10, 11, 12, 13, 32, 133, 160})"

definition strip :: "string \<Rightarrow> string" where
  "strip s = rev (dropWhile py_isspace (rev (dropWhile py_isspace s)))"

definition is_digit :: "char \<Rightarrow> bool" where
  "is_digit c = (48 \<le> (of_char c :: nat) \<and> (of_char c :: nat) \<le> 57)"

fun py_digits :: "bool \<Rightarrow> nat \<Rightarrow> string \<Rightarrow> nat option" where
  "py_digits prev acc [] = (if prev then Some acc else None)"
| "py_digits prev acc (c # cs) =
     (if is_digit c then py_digits True (acc * 10 + (of_char c - 48)) cs
      else if c = CHR ''_'' \<and> prev \<and> cs \<noteq> [] then py_digits False acc cs
      else None)"

definition py_int :: "string \<Rightarrow> int option" where
  "py_int s =
     (case strip s of
        [] \<Rightarrow> None
      | c # cs \<Rightarrow>
          if c = CHR ''-'' then map_option (\<lambda>n. - int n) (py_digits False 0 cs)
          else if c = CHR ''+'' then map_option int (py_digits False 0 cs)
          else map_option int (py_digits False 0 (c # cs)))"

text \<open>
  The exceptions the program can raise, each a subclass of Python's \<open>Exception\<close>.
  \<open>RuntimeError\<close> and \<open>ValueError\<close> carry their message, \<open>KeyError\<close> the missing key;
  the errors of the database driver carry the message the driver reports.
\<close>

datatype exn =
    RuntimeError string
  | ValueError string
  | KeyError string
  | OperationalError string
  | UniqueViolation string
  | NotNullViolation string
  | InvalidDatetimeFormat string
  | DatetimeFieldOverflow string
  | SequenceGeneratorLimitExceeded string

text \<open>\<open>str(e)\<close>.\<close>

fun str_exn :: "exn \<Rightarrow> string" where
  "str_exn (RuntimeError m) = m"
| "str_exn (ValueError m) = m"
| "str_exn (KeyError k) = py_repr k"
| "str_exn (OperationalError m) = m"
| "str_exn (UniqueViolation m) = m"
| "str_exn (NotNullViolation m) = m"
| "str_exn (InvalidDatetimeFormat m) = m"
| "str_exn (DatetimeFieldOverflow m) = m"
| "str_exn (SequenceGeneratorLimitExceeded m) = m"

section \<open>The store and the driver\<close>

text \<open>
  The table \<open>students\<close> lives in a PostgreSQL server the program reaches through the
  driver \<open>psycopg2\<close>. Neither is part of the repository. This section models the calls
  of the driver that \<open>main.py\<close> makes, as the driver documents them, and what the four
  statements of \<open>main.py\<close> do to the table.
\<close>

text \<open>
  A value of a date column: a day of the calendar, given by its year (negative before the
  common era), month and day, or one of the two infinite dates.
\<close>

datatype sql_date = Day int nat nat | PlusInfinity | MinusInfinity

record student =
  student_id :: int
  first_name :: string
  last_name :: string
  email :: string
  enrollment_date :: "sql_date option"

record conn_params =
  host :: string
  port :: int
  user :: string
  password :: string
  dbname :: string

text \<open>What the server can refuse, with the data the refusal is about.\<close>

datatype db_failure =
    ConnectFailed conn_params
  | IdTaken int
  | EmailTaken string
  | NullValue string
  | BadDate string
  | DateOutOfRange string
  | IdsExhausted

text \<open>
  The behaviour of the server that neither the repository nor the specification fixes is
  a parameter of the model: whether it accepts a connection with given parameters
  (\<open>accepts n p\<close> is its answer when \<open>n\<close> connections were attempted before, so the answer
  can change during a run), which texts not of the form \<open>YYYY-MM-DD\<close> its date column
  reads as dates all the same, and as which (PostgreSQL reads \<open>infinity\<close>, \<open>tomorrow\<close>
  and many more, depending on its settings), and the wording of its diagnostics.
\<close>

record server =
  accepts :: "nat \<Rightarrow> conn_params \<Rightarrow> bool"
  other_dates :: "string \<Rightarrow> sql_date option"
  diag :: "db_failure \<Rightarrow> string"

text \<open>
  The world a run of the program acts on. \<open>students\<close> is the committed content of the
  table in storage order and \<open>seq\<close> the last value its \<open>student_id\<close> sequence handed out;
  \<open>txn\<close> is the working copy of the table in the transaction in progress on the
  connection opened last, if any. \<open>connects\<close> counts the calls of \<open>psycopg2.connect\<close>,
  \<open>open_conns\<close> and \<open>open_cursors\<close> the connections and cursors opened and not closed by a
  statement of the program (what the interpreter does when it reclaims an object nothing
  refers to any more is not modelled). \<open>stdout\<close> and \<open>stderr\<close> hold what was printed, one
  entry per call of \<open>print\<close>.
\<close>

record world =
  students :: "student list"
  seq :: int
  txn :: "student list option"
  connects :: nat
  open_conns :: nat
  open_cursors :: nat
  stdout :: "string list"
  stderr :: "string list"

text \<open>A computation either raises an exception or returns a value, and changes the world.\<close>

type_synonym 'a io = "world \<Rightarrow> (exn + 'a) \<times> world"

text \<open>Sequencing: an exception of the first computation skips the second.\<close>

definition bind_io :: "'a io \<Rightarrow> ('a \<Rightarrow> 'b io) \<Rightarrow> 'b io" where
  "bind_io m f w = (case m w of (Inl e, w') \<Rightarrow> (Inl e, w') | (Inr a, w') \<Rightarrow> f a w')"

definition return_io :: "'a \<Rightarrow> 'a io" where
  "return_io a w = (Inr a, w)"

definition raise_io :: "exn \<Rightarrow> 'a io" where
  "raise_io e w = (Inl e, w)"

subsection \<open>The driver's operations\<close>

text \<open>\<open>psycopg2.connect(...)\<close>: one contact with the server; a connection is opened when
  the server accepts the parameters, and it has no transaction in progress.\<close>

definition connect :: "server \<Rightarrow> conn_params \<Rightarrow> unit io" where
  "connect srv p w =
     (if accepts srv (connects w) p
      then (Inr (), w\<lparr>connects := connects w + 1, open_conns := open_conns w + 1,
                      txn := None\<rparr>)
      else (Inl (OperationalError (diag srv (ConnectFailed p))),
            w\<lparr>connects := connects w + 1\<rparr>))"

text \<open>\<open>conn.commit()\<close> and \<open>conn.rollback()\<close>: end the transaction in progress, keeping or
  dropping its working copy.\<close>

definition commit :: "world \<Rightarrow> world" where
  "commit w = (case txn w of
                 None \<Rightarrow> w
               | Some t \<Rightarrow> w\<lparr>students := t, txn := None\<rparr>)"

definition rollback :: "world \<Rightarrow> world" where
  "rollback w = w\<lparr>txn := None\<rparr>"

text \<open>The exception class the driver raises for each refusal.\<close>

definition db_exn :: "server \<Rightarrow> db_failure \<Rightarrow> exn" where
  "db_exn srv f =
     (case f of
        ConnectFailed p \<Rightarrow> OperationalError (diag srv f)
      | IdTaken i \<Rightarrow> UniqueViolation (diag srv f)
      | EmailTaken e \<Rightarrow> UniqueViolation (diag srv f)
      | NullValue c \<Rightarrow> NotNullViolation (diag srv f)
      | BadDate d \<Rightarrow> InvalidDatetimeFormat (diag srv f)
      | DateOutOfRange d \<Rightarrow> DatetimeFieldOverflow (diag srv f)
      | IdsExhausted \<Rightarrow> SequenceGeneratorLimitExceeded (diag srv f))"

text \<open>
  A statement, given the table and the last value of the sequence, is refused or gives a
  result and a new table; either way it says what the last value of the sequence is
  afterwards (a value the sequence has handed out is not given back when the statement
  fails or its transaction is rolled back).
\<close>

type_synonym 'a statement = "student list \<Rightarrow> int \<Rightarrow> (db_failure + 'a \<times> student list) \<times> int"

text \<open>
  \<open>cur.execute(sql, params)\<close>. The driver first writes the bound texts into the
  statement, and raises \<open>ValueError\<close> for a text that holds the code point 0; the server
  is not reached then. Otherwise the first statement on a connection starts a
  transaction, and the statement runs on the working copy. A statement the server refuses
  raises and leaves the working copy as it was.
\<close>

definition execute :: "server \<Rightarrow> string list \<Rightarrow> 'a statement \<Rightarrow> 'a io" where
  "execute srv params stmt w =
     (if list_ex (\<lambda>p. CHR 0x00 \<in> set p) params
      then (Inl (ValueError ''A string literal cannot contain NUL (0x00) characters.''), w)
      else (let t = (case txn w of None \<Rightarrow> students w | Some t' \<Rightarrow> t')
            in case stmt t (seq w) of
                 (Inl f, s') \<Rightarrow> (Inl (db_exn srv f), w\<lparr>txn := Some t, seq := s'\<rparr>)
               | (Inr (a, t'), s') \<Rightarrow> (Inr a, w\<lparr>txn := Some t', seq := s'\<rparr>)))"

text \<open>\<open>conn.commit()\<close> as a statement of the program.\<close>

definition conn_commit :: "unit io" where
  "conn_commit w = (Inr (), commit w)"

text \<open>
  \<open>with conn:\<close> in \<open>psycopg2\<close> ends the transaction when the block is left: commit when
  the block returns, rollback when it raises. It does not close the connection.
\<close>

definition with_conn :: "unit io \<Rightarrow> 'a io \<Rightarrow> 'a io" where
  "with_conn acquire body w =
     (case acquire w of
        (Inl e, w1) \<Rightarrow> (Inl e, w1)
      | (Inr _, w1) \<Rightarrow>
          (case body w1 of
             (Inl e, w2) \<Rightarrow> (Inl e, rollback w2)
           | (Inr a, w2) \<Rightarrow> (Inr a, commit w2)))"

text \<open>\<open>with conn.cursor() as cur:\<close> opens a cursor and closes it when the block is left,
  on return and on an exception alike.\<close>

definition with_cursor :: "'a io \<Rightarrow> 'a io" where
  "with_cursor body w =
     (case body (w\<lparr>open_cursors := open_cursors w + 1\<rparr>) of
        (r, w2) \<Rightarrow> (r, w2\<lparr>open_cursors := open_cursors w2 - 1\<rparr>))"

subsection \<open>The four statements\<close>

text \<open>
  Modelled from the spec: the declaration of the table is not in the repository. Section 6
  of the specification gives its columns: \<open>student_id\<close>, an auto-assigned integer primary
  key; \<open>first_name\<close>, \<open>last_name\<close> and \<open>email\<close>, texts, the email unique; \<open>enrollment_date\<close>,
  the one nullable column, a date. By sections 4 and 6 the date of an insert is a text,
  \<open>YYYY-MM-DD\<close>, that must parse as a calendar date. By section 7 a statement that fails
  leaves the table unchanged.
\<close>

text \<open>The largest value of an integer column, and so of the sequence of \<open>student_id\<close>.\<close>

definition max_id :: int where
  "max_id = 2147483647"

definition days_in_month :: "nat \<Rightarrow> nat \<Rightarrow> nat" where
  "days_in_month y m =
     (if m = 2 then (if y mod 4 = 0 \<and> (y mod 100 \<noteq> 0 \<or> y mod 400 = 0) then 29 else 28)
      else if m \<in> {4, 6, 9, 11} then 30 else 31)"

definition decimal :: "string \<Rightarrow> nat" where
  "decimal s = fold (\<lambda>c n. 10 * n + (of_char c - 48)) s 0"

text \<open>
  Modelled from the spec: how the date column reads the text of an insert. A text of the
  form \<open>YYYY-MM-DD\<close>, the one the specification names, is read as that day when the day
  is in the calendar, and is out of range otherwise. Any other text is read as the server
  reads it, and is malformed when the server does not read it.
\<close>

datatype date_reading = Malformed | OutOfRange | Reads sql_date

definition ymd_form :: "string \<Rightarrow> bool" where
  "ymd_form s =
     (length s = 10 \<and> s ! 4 = CHR ''-'' \<and> s ! 7 = CHR ''-''
      \<and> list_all is_digit (take 4 s @ take 2 (drop 5 s) @ drop 8 s))"

definition read_date :: "server \<Rightarrow> string \<Rightarrow> date_reading" where
  "read_date srv s =
     (if ymd_form s
      then (let y = decimal (take 4 s); m = decimal (take 2 (drop 5 s)); d = decimal (drop 8 s)
            in if 1 \<le> y \<and> 1 \<le> m \<and> m \<le> 12 \<and> 1 \<le> d \<and> d \<le> days_in_month y m
               then Reads (Day (int y) m d) else OutOfRange)
      else (case other_dates srv s of None \<Rightarrow> Malformed | Some d \<Rightarrow> Reads d))"

text \<open>\<open>SELECT ... FROM students ORDER BY student_id\<close>.\<close>

definition sql_select :: "student list statement" where
  "sql_select t s = (Inr (sort_key student_id t, t), s)"

text \<open>
  \<open>INSERT INTO students (...) VALUES (%s, %s, %s, %s) RETURNING student_id\<close>, a Python
  \<open>None\<close> bound as \<open>NULL\<close>. The date text, when given, must read as a date. The new row
  takes the next value of the sequence, which must not be past the largest integer. The
  first name, last name and email must not be \<open>NULL\<close>, and neither the id nor the email
  may be in the table. A refusal after the sequence was advanced leaves it advanced.
\<close>

definition sql_insert ::
  "server \<Rightarrow> string option \<Rightarrow> string option \<Rightarrow> string option \<Rightarrow> string option
   \<Rightarrow> int statement" where
  "sql_insert srv f l e d t s =
     (case (case d of
              None \<Rightarrow> Inr None
            | Some x \<Rightarrow> (case read_date srv x of
                           Malformed \<Rightarrow> Inl (BadDate x)
                         | OutOfRange \<Rightarrow> Inl (DateOutOfRange x)
                         | Reads dt \<Rightarrow> Inr (Some dt))) of
        Inl x \<Rightarrow> (Inl x, s)
      | Inr dv \<Rightarrow>
          if max_id \<le> s then (Inl IdsExhausted, s)
          else (case f of
                  None \<Rightarrow> (Inl (NullValue ''first_name''), s + 1)
                | Some fv \<Rightarrow>
                    (case l of
                       None \<Rightarrow> (Inl (NullValue ''last_name''), s + 1)
                     | Some lv \<Rightarrow>
                         (case e of
                            None \<Rightarrow> (Inl (NullValue ''email''), s + 1)
                          | Some ev \<Rightarrow>
                              if s + 1 \<in> set (map student_id t)
                              then (Inl (IdTaken (s + 1)), s + 1)
                              else if ev \<in> set (map email t)
                              then (Inl (EmailTaken ev), s + 1)
                              else (Inr (s + 1,
                                         t @ [\<lparr>student_id = s + 1, first_name = fv,
                                               last_name = lv, email = ev,
                                               enrollment_date = dv\<rparr>]), s + 1)))))"

text \<open>
  \<open>UPDATE students SET email = %s WHERE student_id = %s\<close>: refused when a row is to be
  changed and another row holds the new email; the result is the number of rows changed.
\<close>

definition sql_update :: "string \<Rightarrow> int \<Rightarrow> nat statement" where
  "sql_update e i t s =
     (if (\<exists>r \<in> set t. student_id r = i) \<and> (\<exists>r \<in> set t. student_id r \<noteq> i \<and> email r = e)
      then (Inl (EmailTaken e), s)
      else (Inr (length (filter (\<lambda>r. student_id r = i) t),
                 map (\<lambda>r. if student_id r = i then r\<lparr>email := e\<rparr> else r) t), s))"

text \<open>\<open>DELETE FROM students WHERE student_id = %s\<close>; the result is the number of rows
  deleted.\<close>

definition sql_delete :: "int \<Rightarrow> nat statement" where
  "sql_delete i t s =
     (Inr (length (filter (\<lambda>r. student_id r = i) t), filter (\<lambda>r. student_id r \<noteq> i) t), s)"

section \<open>The connection provider: \<open>get_conn\<close>\<close>

text \<open>The process environment, after \<open>app/.env\<close> was loaded into it when the file exists:
  \<open>os.getenv(v)\<close> is \<open>env v\<close>.\<close>

type_synonym env = "string \<Rightarrow> string option"

definition required_vars :: "string list" where
  "required_vars = [''PGHOST'', ''PGPORT'', ''PGUSER'', ''PGPASSWORD'', ''PGDATABASE'']"

text \<open>\<open>not os.getenv(v)\<close>: true for an unset variable and for the empty string.\<close>

definition not_set :: "env \<Rightarrow> string \<Rightarrow> bool" where
  "not_set env v = (env v = None \<or> env v = Some [])"

definition missing :: "env \<Rightarrow> string list" where
  "missing env = filter (not_set env) required_vars"

definition missing_message :: "string list \<Rightarrow> string" where
  "missing_message ms =
     ''Missing env vars: '' @ join '', '' ms @ ''. '' @ ''Set them in your environment or app/.env''"

text \<open>\<open>os.getenv(v)\<close> for a variable that is set. \<open>get_conn\<close> reads the five variables only
  after it has checked that each is set and not empty, so the other case never decides a
  result (lemma \<open>getenv_set\<close>).\<close>

definition getenv :: "env \<Rightarrow> string \<Rightarrow> string" where
  "getenv env v = (case env v of None \<Rightarrow> [] | Some s \<Rightarrow> s)"

text \<open>The message of the \<open>ValueError\<close> of \<open>int\<close> shows at most the first 200 characters of
  the \<open>repr\<close> of its argument.\<close>

definition get_conn :: "server \<Rightarrow> env \<Rightarrow> unit io" where
  "get_conn srv env w =
     (if missing env \<noteq> [] then (Inl (RuntimeError (missing_message (missing env))), w)
      else case py_int (getenv env ''PGPORT'') of
             None \<Rightarrow>
               (Inl (ValueError (''invalid literal for int() with base 10: ''
                                 @ take 200 (py_repr (getenv env ''PGPORT'')))), w)
           | Some p \<Rightarrow>
               connect srv \<lparr>host = getenv env ''PGHOST'', port = p,
                            user = getenv env ''PGUSER'',
                            password = getenv env ''PGPASSWORD'',
                            dbname = getenv env ''PGDATABASE''\<rparr> w)"

section \<open>The data access operations\<close>

text \<open>A \<open>datetime.date\<close>: a year from 1 to 9999, a month and a day of that month.\<close>

record date =
  year :: nat
  month :: nat
  day :: nat

text \<open>The values a row of a result can hold, and \<open>str(v)\<close>.\<close>

datatype pyval = PNone | PInt int | PStr string | PDate date

definition zfill :: "nat \<Rightarrow> string \<Rightarrow> string" where
  "zfill n s = replicate (n - length s) CHR ''0'' @ s"

fun py_str :: "pyval \<Rightarrow> string" where
  "py_str PNone = ''None''"
| "py_str (PInt i) = str_int i"
| "py_str (PStr s) = s"
| "py_str (PDate d) =
     zfill 4 (digits (year d)) @ ''-'' @ zfill 2 (digits (month d)) @ ''-''
       @ zfill 2 (digits (day d))"

text \<open>A Python \<open>dict\<close> with string keys, in insertion order.\<close>

type_synonym dict = "(string \<times> pyval) list"

text \<open>
  The driver's conversion of a value of a date column when a row is fetched. The two
  infinite dates become \<open>date.max\<close> and \<open>date.min\<close>; a day becomes
  \<open>datetime.date(year, month, day)\<close>, which raises \<open>ValueError\<close> for a year outside 1 to
  9999 and for a month or day that does not exist.
\<close>

definition cast_date :: "sql_date \<Rightarrow> exn + date" where
  "cast_date d =
     (case d of
        PlusInfinity \<Rightarrow> Inr \<lparr>year = 9999, month = 12, day = 31\<rparr>
      | MinusInfinity \<Rightarrow> Inr \<lparr>year = 1, month = 1, day = 1\<rparr>
      | Day y m dd \<Rightarrow>
          if y < 1 \<or> 9999 < y
          then Inl (ValueError (''year '' @ str_int y @ '' is out of range''))
          else if m < 1 \<or> 12 < m then Inl (ValueError ''month must be in 1..12'')
          else if dd < 1 \<or> days_in_month (nat y) m < dd
          then Inl (ValueError ''day is out of range for month'')
          else Inr \<lparr>year = nat y, month = m, day = dd\<rparr>)"

text \<open>The value fetched for the date column of a row: \<open>None\<close> for \<open>NULL\<close>.\<close>

definition cast_column :: "sql_date option \<Rightarrow> exn + pyval" where
  "cast_column c =
     (case c of
        None \<Rightarrow> Inr PNone
      | Some d \<Rightarrow> (case cast_date d of Inl e \<Rightarrow> Inl e | Inr pd \<Rightarrow> Inr (PDate pd)))"

text \<open>One row as the \<open>RealDictCursor\<close> fetches it: the columns in the order the
  statement names them.\<close>

definition fetch_row :: "student \<Rightarrow> exn + dict" where
  "fetch_row s =
     (case cast_column (enrollment_date s) of
        Inl e \<Rightarrow> Inl e
      | Inr v \<Rightarrow>
          Inr [(''student_id'', PInt (student_id s)),
               (''first_name'', PStr (first_name s)),
               (''last_name'', PStr (last_name s)),
               (''email'', PStr (email s)),
               (''enrollment_date'', v)])"

text \<open>A list comprehension or generator whose element expression may raise.\<close>

fun traverse :: "('a \<Rightarrow> exn + 'b) \<Rightarrow> 'a list \<Rightarrow> exn + 'b list" where
  "traverse f [] = Inr []"
| "traverse f (x # xs) =
     (case f x of
        Inl e \<Rightarrow> Inl e
      | Inr y \<Rightarrow> (case traverse f xs of Inl e \<Rightarrow> Inl e | Inr ys \<Rightarrow> Inr (y # ys)))"

text \<open>\<open>cur.fetchall()\<close> on the result of the \<open>SELECT\<close>.\<close>

definition fetchall :: "student list \<Rightarrow> dict list io" where
  "fetchall result w =
     (case traverse fetch_row result of Inl e \<Rightarrow> (Inl e, w) | Inr rows \<Rightarrow> (Inr rows, w))"

text \<open>\<open>dict(r)\<close>: a new dict with the items of \<open>r\<close> in their order.\<close>

definition dict_copy :: "dict \<Rightarrow> dict" where
  "dict_copy r = r"

definition getAllStudents :: "server \<Rightarrow> env \<Rightarrow> dict list io" where
  "getAllStudents srv env =
     with_conn (get_conn srv env)
       (with_cursor
          (bind_io (execute srv [] sql_select) (\<lambda>result.
           bind_io (fetchall result) (\<lambda>rows.
           return_io (map dict_copy rows)))))"

text \<open>The texts among the arguments bound to a statement: a \<open>None\<close> is bound as \<open>NULL\<close>.\<close>

definition bound_texts :: "string option list \<Rightarrow> string list" where
  "bound_texts args = concat (map (\<lambda>a. case a of None \<Rightarrow> [] | Some x \<Rightarrow> [x]) args)"

text \<open>
  \<open>addStudent\<close>. Python does not check the declared types of the arguments, so each of
  them can be \<open>None\<close>; the first three are strings whenever \<open>main\<close> calls the function.
\<close>

definition addStudent ::
  "server \<Rightarrow> env \<Rightarrow> string option \<Rightarrow> string option \<Rightarrow> string option \<Rightarrow> string option
   \<Rightarrow> int io" where
  "addStudent srv env first_arg last_arg email_arg date_arg =
     with_conn (get_conn srv env)
       (with_cursor
          (bind_io (execute srv (bound_texts [first_arg, last_arg, email_arg, date_arg])
                      (sql_insert srv first_arg last_arg email_arg date_arg)) (\<lambda>new_id.
           bind_io conn_commit (\<lambda>_.
           return_io new_id))))"

definition updateStudentEmail :: "server \<Rightarrow> env \<Rightarrow> int \<Rightarrow> string \<Rightarrow> nat io" where
  "updateStudentEmail srv env sid new_email =
     with_conn (get_conn srv env)
       (with_cursor
          (bind_io (execute srv [new_email] (sql_update new_email sid)) (\<lambda>affected.
           bind_io conn_commit (\<lambda>_.
           return_io affected))))"

definition deleteStudent :: "server \<Rightarrow> env \<Rightarrow> int \<Rightarrow> nat io" where
  "deleteStudent srv env sid =
     with_conn (get_conn srv env)
       (with_cursor
          (bind_io (execute srv [] (sql_delete sid)) (\<lambda>affected.
           bind_io conn_commit (\<lambda>_.
           return_io affected))))"

section \<open>The table renderer: \<open>print_table\<close>\<close>

definition print :: "string \<Rightarrow> unit io" where
  "print s w = (Inr (), w\<lparr>stdout := stdout w @ [s]\<rparr>)"

text \<open>\<open>d[k]\<close>: a missing key raises \<open>KeyError\<close>.\<close>

definition subscript :: "(string \<Rightarrow> 'v option) \<Rightarrow> string \<Rightarrow> exn + 'v" where
  "subscript d k = (case d k of None \<Rightarrow> Inl (KeyError k) | Some v \<Rightarrow> Inr v)"

text \<open>\<open>len(str(v)) if v is not None else 0\<close> and \<open>str(v) if v is not None else ''\<close>.\<close>

definition cell_len :: "pyval \<Rightarrow> nat" where
  "cell_len v = (if v \<noteq> PNone then length (py_str v) else 0)"

definition cell_text :: "pyval \<Rightarrow> string" where
  "cell_text v = (if v \<noteq> PNone then py_str v else [])"

text \<open>The format \<open>{s:<{n}}\<close>: \<open>s\<close> left-justified in \<open>n\<close> columns, never cut.\<close>

definition ljust :: "nat \<Rightarrow> string \<Rightarrow> string" where
  "ljust n s = s @ replicate (n - length s) CHR '' ''"

text \<open>The loop \<open>for h in headers: widths[h] = max(widths[h], ...)\<close> for one row \<open>r\<close>.\<close>

fun widths_row :: "dict \<Rightarrow> string list \<Rightarrow> (string \<Rightarrow> nat option) \<Rightarrow> exn + (string \<Rightarrow> nat option)" where
  "widths_row r [] ws = Inr ws"
| "widths_row r (h # hs) ws =
     (case subscript ws h of
        Inl e \<Rightarrow> Inl e
      | Inr n \<Rightarrow>
          (case subscript (map_of r) h of
             Inl e \<Rightarrow> Inl e
           | Inr v \<Rightarrow> widths_row r hs (ws(h \<mapsto> max n (cell_len v)))))"

text \<open>The loop \<open>for r in rows\<close> around it.\<close>

fun widths_rows :: "dict list \<Rightarrow> string list \<Rightarrow> (string \<Rightarrow> nat option) \<Rightarrow> exn + (string \<Rightarrow> nat option)" where
  "widths_rows [] hs ws = Inr ws"
| "widths_rows (r # rs) hs ws =
     (case widths_row r hs ws of Inl e \<Rightarrow> Inl e | Inr ws' \<Rightarrow> widths_rows rs hs ws')"

text \<open>The inner function \<open>line(char)\<close>; every call of the source passes \<open>"="\<close>.\<close>

definition line :: "(string \<Rightarrow> nat option) \<Rightarrow> string list \<Rightarrow> char \<Rightarrow> unit io" where
  "line ws headers c =
     (case traverse (\<lambda>h. case subscript ws h of
                          Inl e \<Rightarrow> Inl e
                        | Inr n \<Rightarrow> Inr (replicate (n + 2) c)) headers of
        Inl e \<Rightarrow> raise_io e
      | Inr segs \<Rightarrow> print (''+'' @ join ''+'' segs @ ''+''))"

definition print_header :: "(string \<Rightarrow> nat option) \<Rightarrow> string list \<Rightarrow> unit io" where
  "print_header ws headers =
     (case traverse (\<lambda>h. case subscript ws h of
                          Inl e \<Rightarrow> Inl e
                        | Inr n \<Rightarrow> Inr (ljust n h)) headers of
        Inl e \<Rightarrow> raise_io e
      | Inr cells \<Rightarrow> print (''| '' @ join '' | '' cells @ '' |''))"

definition print_row :: "(string \<Rightarrow> nat option) \<Rightarrow> string list \<Rightarrow> dict \<Rightarrow> unit io" where
  "print_row ws headers r =
     (case traverse (\<lambda>h. case subscript (map_of r) h of
                          Inl e \<Rightarrow> Inl e
                        | Inr v \<Rightarrow>
                            (case subscript ws h of
                               Inl e \<Rightarrow> Inl e
                             | Inr n \<Rightarrow> Inr (ljust n (cell_text v)))) headers of
        Inl e \<Rightarrow> raise_io e
      | Inr cells \<Rightarrow> print (''| '' @ join '' | '' cells @ '' |''))"

fun print_rows :: "(string \<Rightarrow> nat option) \<Rightarrow> string list \<Rightarrow> dict list \<Rightarrow> unit io" where
  "print_rows ws headers [] = return_io ()"
| "print_rows ws headers (r # rs) =
     bind_io (print_row ws headers r) (\<lambda>_. print_rows ws headers rs)"

definition print_table :: "dict list \<Rightarrow> unit io" where
  "print_table rows =
     (case rows of
        [] \<Rightarrow> print ''(no rows)''
      | r0 # _ \<Rightarrow>
          (let headers = map fst r0
           in case widths_rows rows headers (map_of (map (\<lambda>h. (h, length h)) headers)) of
                Inl e \<Rightarrow> raise_io e
              | Inr ws \<Rightarrow>
                  bind_io (line ws headers CHR ''='') (\<lambda>_.
                  bind_io (print_header ws headers) (\<lambda>_.
                  bind_io (line ws headers CHR ''='') (\<lambda>_.
                  bind_io (print_rows ws headers rows) (\<lambda>_.
                  line ws headers CHR ''=''))))))"

section \<open>The command dispatcher: \<open>main\<close>\<close>

text \<open>The arguments as \<open>parser.parse_args()\<close> returns them: one of the four subcommands
  with its flags. A required flag is a string; \<open>--date\<close> is \<open>None\<close> when it is not given.\<close>

datatype cmd =
    GetAll
  | Add string string string "string option"
  | UpdateEmail int string
  | Delete int

text \<open>The body of the \<open>try\<close> block.\<close>

fun dispatch :: "server \<Rightarrow> env \<Rightarrow> cmd \<Rightarrow> unit io" where
  "dispatch srv env GetAll =
     bind_io (getAllStudents srv env) (\<lambda>rows.
     print_table rows)"
| "dispatch srv env (Add first_arg last_arg email_arg date_arg) =
     bind_io (addStudent srv env (Some first_arg) (Some last_arg) (Some email_arg) date_arg)
       (\<lambda>new_id.
     bind_io (print (''Inserted student_id='' @ str_int new_id)) (\<lambda>_.
     bind_io (getAllStudents srv env) (\<lambda>rows.
     print_table rows)))"
| "dispatch srv env (UpdateEmail sid email_arg) =
     bind_io (updateStudentEmail srv env sid email_arg) (\<lambda>affected.
     bind_io (print (''Rows updated: '' @ str_int (int affected))) (\<lambda>_.
     bind_io (getAllStudents srv env) (\<lambda>rows.
     print_table rows)))"
| "dispatch srv env (Delete sid) =
     bind_io (deleteStudent srv env sid) (\<lambda>affected.
     bind_io (print (''Rows deleted: '' @ str_int (int affected))) (\<lambda>_.
     bind_io (getAllStudents srv env) (\<lambda>rows.
     print_table rows)))"

text \<open>
  \<open>main\<close> after argument parsing: the exit status of the process and the world it
  leaves. \<open>except Exception as e\<close> prints \<open>ERROR: \<close> and the message to the error stream
  and exits with status 1.
\<close>

definition main :: "server \<Rightarrow> env \<Rightarrow> cmd \<Rightarrow> world \<Rightarrow> nat \<times> world" where
  "main srv env c w =
     (case dispatch srv env c w of
        (Inr _, w') \<Rightarrow> (0, w')
      | (Inl e, w') \<Rightarrow> (1, w'\<lparr>stderr := stderr w' @ [''ERROR: '' @ str_exn e]\<rparr>))"

section \<open>Stating the properties\<close>

subsection \<open>The rendering as the specification words it\<close>

text \<open>
  The width of column \<open>h\<close>: the maximum of the length of the header text and of the
  length of the string form of every value of the column, a null value counting 0.
\<close>

definition col_width :: "dict list \<Rightarrow> string \<Rightarrow> nat" where
  "col_width rows h = Max (set (length h # map (\<lambda>r. cell_len (the (map_of r h))) rows))"

text \<open>A border line: for every column a segment of the column's width plus 2, between
  \<open>+\<close> corners.\<close>

definition border_line :: "dict list \<Rightarrow> string list \<Rightarrow> string" where
  "border_line rows hs =
     ''+'' @ join ''+'' (map (\<lambda>h. replicate (col_width rows h + 2) CHR ''='') hs) @ ''+''"

definition header_line :: "dict list \<Rightarrow> string list \<Rightarrow> string" where
  "header_line rows hs =
     ''| '' @ join '' | '' (map (\<lambda>h. ljust (col_width rows h) h) hs) @ '' |''"

definition row_line :: "dict list \<Rightarrow> string list \<Rightarrow> dict \<Rightarrow> string" where
  "row_line rows hs r =
     ''| '' @ join '' | '' (map (\<lambda>h. ljust (col_width rows h) (cell_text (the (map_of r h)))) hs)
       @ '' |''"

definition table_lines :: "dict list \<Rightarrow> string list" where
  "table_lines rows =
     (let hs = map fst (hd rows)
      in [border_line rows hs, header_line rows hs, border_line rows hs]
         @ map (row_line rows hs) rows @ [border_line rows hs])"

subsection \<open>The stores the program can produce\<close>

text \<open>
  The primary key and its sequence: no two records share an id, and no id is beyond the
  last value the sequence handed out.
\<close>

definition pk_inv :: "world \<Rightarrow> bool" where
  "pk_inv w = (distinct (map student_id (students w))
               \<and> list_all (\<lambda>r. student_id r \<le> seq w) (students w))"

text \<open>
  A store is reachable when it is a table that keeps its primary key, its records in any
  storage order, or comes from a reachable store by one of the operations, whatever its
  arguments, the environment and the server's answers.
\<close>

inductive reachable :: "world \<Rightarrow> bool" where
  initial: "pk_inv w \<Longrightarrow> reachable w"
| add: "reachable w \<Longrightarrow> reachable (snd (addStudent srv env f l e d w))"
| update: "reachable w \<Longrightarrow> reachable (snd (updateStudentEmail srv env i e w))"
| delete: "reachable w \<Longrightarrow> reachable (snd (deleteStudent srv env i w))"
| list: "reachable w \<Longrightarrow> reachable (snd (getAllStudents srv env w))"
| render: "reachable w \<Longrightarrow> reachable (snd (print_table rows w))"

text \<open>A record with its email replaced when it has the given id.\<close>

definition set_email :: "int \<Rightarrow> string \<Rightarrow> student \<Rightarrow> student" where
  "set_email i e r = (if student_id r = i then r\<lparr>email := e\<rparr> else r)"

text \<open>The world after a connection was acquired and its transaction ended without a
  change of the table.\<close>

definition connected :: "world \<Rightarrow> world" where
  "connected w = w\<lparr>connects := connects w + 1, open_conns := open_conns w + 1, txn := None\<rparr>"

text \<open>A computation that changes nothing of the world but what was printed to standard
  output.\<close>

definition only_prints :: "'a io \<Rightarrow> bool" where
  "only_prints m = (\<forall>w. \<exists>out. snd (m w) = w\<lparr>stdout := stdout w @ out\<rparr>)"

subsection \<open>The listing as the specification words it\<close>

text \<open>
  The dates a listing can show: the two infinite dates, and the days of the years 1 to
  9999. A stored date outside them has no \<open>datetime.date\<close>.
\<close>

fun shown_date :: "sql_date \<Rightarrow> date option" where
  "shown_date PlusInfinity = Some \<lparr>year = 9999, month = 12, day = 31\<rparr>"
| "shown_date MinusInfinity = Some \<lparr>year = 1, month = 1, day = 1\<rparr>"
| "shown_date (Day y m d) =
     (if 1 \<le> y \<and> y \<le> 9999 \<and> 1 \<le> m \<and> m \<le> 12 \<and> 1 \<le> d \<and> d \<le> days_in_month (nat y) m
      then Some \<lparr>year = nat y, month = m, day = d\<rparr> else None)"

definition showable :: "student \<Rightarrow> bool" where
  "showable r = (case enrollment_date r of None \<Rightarrow> True | Some d \<Rightarrow> shown_date d \<noteq> None)"

text \<open>A record as the listing shows it: its five fields under the names of their
  columns, the enrollment date as a \<open>datetime.date\<close>, or \<open>None\<close> when there is none.\<close>

definition listed :: "student \<Rightarrow> dict" where
  "listed r =
     [(''student_id'', PInt (student_id r)),
      (''first_name'', PStr (first_name r)),
      (''last_name'', PStr (last_name r)),
      (''email'', PStr (email r)),
      (''enrollment_date'',
         case enrollment_date r of
           None \<Rightarrow> PNone
         | Some d \<Rightarrow> (case shown_date d of None \<Rightarrow> PNone | Some pd \<Rightarrow> PDate pd))]"

subsection \<open>The date of an insert as the specification words it\<close>

text \<open>
  A text names a day when it has the form \<open>YYYY-MM-DD\<close>, four, two and two decimal digits
  between hyphens, and the month has that day in that year, the year not being 0.
\<close>

definition names_day :: "string \<Rightarrow> bool" where
  "names_day s =
     (length s = 10 \<and> s ! 4 = CHR ''-'' \<and> s ! 7 = CHR ''-''
      \<and> list_all is_digit (take 4 s @ take 2 (drop 5 s) @ drop 8 s)
      \<and> 1 \<le> decimal (take 4 s)
      \<and> 1 \<le> decimal (take 2 (drop 5 s)) \<and> decimal (take 2 (drop 5 s)) \<le> 12
      \<and> 1 \<le> decimal (drop 8 s)
      \<and> decimal (drop 8 s) \<le> days_in_month (decimal (take 4 s)) (decimal (take 2 (drop 5 s))))"

text \<open>
  A text parses as a calendar date when it names a day, or is a text of another form
  that the server reads as a date.
\<close>

definition parses_as_date :: "server \<Rightarrow> string \<Rightarrow> bool" where
  "parses_as_date srv s =
     (names_day s
      \<or> (length s \<noteq> 10 \<or> s ! 4 \<noteq> CHR ''-'' \<or> s ! 7 \<noteq> CHR ''-''
          \<or> list_ex (\<lambda>c. (of_char c :: nat) < 48 \<or> 57 < (of_char c :: nat))
               (take 4 s @ take 2 (drop 5 s) @ drop 8 s))
        \<and> other_dates srv s \<noteq> None)"

subsection \<open>Concrete inputs\<close>

text \<open>A server that accepts connections to port 5432, reads \<open>infinity\<close> and \<open>-infinity\<close> as
  dates besides the texts of the form \<open>YYYY-MM-DD\<close>, and whose diagnostics are fixed
  texts.\<close>

definition example_server :: server where
  "example_server =
     \<lparr>accepts = (\<lambda>n p. port p = 5432),
      other_dates = (\<lambda>s. if s = ''infinity'' then Some PlusInfinity
                         else if s = ''-infinity'' then Some MinusInfinity else None),
      diag = (\<lambda>f. case f of
                ConnectFailed p \<Rightarrow> ''connection refused''
              | IdTaken i \<Rightarrow> ''duplicate key value violates unique constraint''
              | EmailTaken e \<Rightarrow> ''duplicate key value violates unique constraint''
              | NullValue c \<Rightarrow> ''null value violates not-null constraint''
              | BadDate d \<Rightarrow> ''invalid input syntax for type date''
              | DateOutOfRange d \<Rightarrow> ''date/time field value out of range''
              | IdsExhausted \<Rightarrow> ''nextval: reached maximum value of sequence'')\<rparr>"

text \<open>The same server, reachable for the first connection of a run only.\<close>

definition flaky_server :: server where
  "flaky_server = example_server\<lparr>accepts := (\<lambda>n p. n = 0 \<and> port p = 5432)\<rparr>"

definition example_env :: env where
  "example_env =
     map_of [(''PGHOST'', ''localhost''), (''PGPORT'', ''5432''), (''PGUSER'', ''postgres''),
             (''PGPASSWORD'', ''secret''), (''PGDATABASE'', ''school'')]"

definition ada :: student where
  "ada = \<lparr>student_id = 1, first_name = ''Ada'', last_name = ''Lovelace'',
          email = ''ada@example.com'', enrollment_date = None\<rparr>"

definition bob :: student where
  "bob = \<lparr>student_id = 2, first_name = ''Bob'', last_name = ''Stone'',
          email = ''bob@example.com'', enrollment_date = Some (Day 2023 9 3)\<rparr>"

text \<open>The same server, reading also years of five digits.\<close>

definition wide_server :: server where
  "wide_server =
     example_server\<lparr>other_dates := (\<lambda>s. if s = ''10000-01-01'' then Some (Day 10000 1 1)
                                           else other_dates example_server s)\<rparr>"

text \<open>A record whose enrollment date is the first day of the year 10000.\<close>

definition eve :: student where
  "eve = \<lparr>student_id = 3, first_name = ''Eve'', last_name = ''Far'',
          email = ''eve@example.com'', enrollment_date = Some (Day 10000 1 1)\<rparr>"

definition world_of :: "student list \<Rightarrow> int \<Rightarrow> world" where
  "world_of t s = \<lparr>students = t, seq = s, txn = None, connects = 0, open_conns = 0,
                   open_cursors = 0, stdout = [], stderr = []\<rparr>"

section \<open>Connection acquisition\<close>

lemma sublist_in_context: "sublist v m \<Longrightarrow> sublist v (p @ m @ s)"
proof -
  assume "sublist v m"
  then obtain a b where "m = a @ v @ b" by (auto simp: sublist_def)
  then have "p @ m @ s = (p @ a) @ v @ (b @ s)" by simp
  then show ?thesis unfolding sublist_def by blast
qed

lemma sublist_join: "v \<in> set ms \<Longrightarrow> sublist v (join sep ms)"
proof (induction sep ms rule: join.induct)
  case (1 sep)
  then show ?case by simp
next
  case (2 sep x)
  then show ?case by simp
next
  case (3 sep x y ys)
  show ?case
  proof (cases "v = x")
    case True
    then show ?thesis by simp
  next
    case False
    with 3 have "sublist v (join sep (y # ys))" by simp
    then have "sublist v ((x @ sep) @ join sep (y # ys) @ [])" by (rule sublist_in_context)
    then show ?thesis by simp
  qed
qed

lemma sublist_missing_message: "v \<in> set ms \<Longrightarrow> sublist v (missing_message ms)"
  unfolding missing_message_def
  by (rule sublist_in_context) (rule sublist_join)

lemma getenv_set:
  assumes "missing env = []" and "v \<in> set required_vars"
  shows "env v = Some (getenv env v) \<and> getenv env v \<noteq> []"
proof -
  from assms have "\<not> not_set env v" by (auto simp: missing_def filter_empty_conv)
  then show ?thesis by (cases "env v") (auto simp: not_set_def getenv_def)
qed

lemma get_conn_Inr:
  "fst (get_conn srv env w) = Inr u \<Longrightarrow> get_conn srv env w = (Inr (), connected w)"
  by (auto simp: get_conn_def connect_def connected_def split: option.splits if_splits)

lemma get_conn_Inl:
  "fst (get_conn srv env w) = Inl e \<Longrightarrow>
   \<exists>k \<le> 1. get_conn srv env w = (Inl e, w\<lparr>connects := connects w + k\<rparr>)"
  by (auto simp: get_conn_def connect_def split: option.splits if_splits)

lemma get_conn_cases:
  obtains (fail) e k where "k \<le> 1" "get_conn srv env w = (Inl e, w\<lparr>connects := connects w + k\<rparr>)"
        | (ok) "get_conn srv env w = (Inr (), connected w)"
proof (cases "fst (get_conn srv env w)")
  case (Inl e)
  from get_conn_Inl[OF this] fail show ?thesis by blast
next
  case (Inr u)
  from get_conn_Inr[OF this] ok show ?thesis by blast
qed

lemma example_conn: "fst (get_conn example_server example_env w) = Inr ()"
  by (simp add: get_conn_def missing_def not_set_def required_vars_def example_env_def
      example_server_def getenv_def py_int_def strip_def py_isspace_def is_digit_def connect_def)

lemma wide_conn: "fst (get_conn wide_server example_env w) = Inr ()"
  by (simp add: get_conn_def missing_def not_set_def required_vars_def example_env_def
      wide_server_def example_server_def getenv_def py_int_def strip_def py_isspace_def
      is_digit_def connect_def)

text \<open>
  C5. When at least one of the five required variables is absent from the environment,
  \<open>get_conn\<close> raises one error whose message is built from the list of all required
  variables that are unset or empty, so every absent variable's name stands in the
  message; the world is returned as it was, so \<open>psycopg2.connect\<close> was not called. The
  error the specification calls ConfigError is Python's \<open>RuntimeError\<close> in the source.
\<close>

theorem get_conn_missing:
  assumes "\<exists>v \<in> set required_vars. env v = None"
  shows "get_conn srv env w = (Inl (RuntimeError (missing_message (missing env))), w)
       \<and> connects (snd (get_conn srv env w)) = connects w
       \<and> set (missing env) = {v \<in> set required_vars. env v = None \<or> env v = Some []}
       \<and> (\<forall>v \<in> set required_vars. env v = None \<longrightarrow> sublist v (missing_message (missing env)))"
proof -
  from assms obtain v where v: "v \<in> set required_vars" "env v = None" by blast
  then have "v \<in> set (missing env)" by (simp add: missing_def not_set_def)
  then have ne: "missing env \<noteq> []" by auto
  then have g: "get_conn srv env w = (Inl (RuntimeError (missing_message (missing env))), w)"
    by (simp add: get_conn_def)
  have s: "\<forall>v \<in> set required_vars. env v = None \<longrightarrow> sublist v (missing_message (missing env))"
    by (auto intro!: sublist_missing_message simp: missing_def not_set_def)
  have m: "set (missing env) = {v \<in> set required_vars. env v = None \<or> env v = Some []}"
    by (auto simp: missing_def not_set_def)
  from g s m show ?thesis by simp
qed

text \<open>With none of the five variables set, the message lists all five names.\<close>

theorem get_conn_missing_witness:
  "get_conn example_server Map.empty (world_of [] 0)
     = (Inl (RuntimeError (''Missing env vars: PGHOST, PGPORT, PGUSER, PGPASSWORD, PGDATABASE. ''
                           @ ''Set them in your environment or app/.env'')), world_of [] 0)
   \<and> sublist ''PGPASSWORD'' (missing_message (missing Map.empty))"
proof -
  have h: "\<exists>v \<in> set required_vars. (Map.empty :: env) v = None"
    by (auto simp: required_vars_def)
  have m: "missing_message (missing Map.empty)
             = ''Missing env vars: PGHOST, PGPORT, PGUSER, PGPASSWORD, PGDATABASE. ''
               @ ''Set them in your environment or app/.env''"
    by (simp add: missing_def not_set_def required_vars_def missing_message_def)
  have r: "''PGPASSWORD'' \<in> set required_vars"
    by (simp add: required_vars_def)
  from get_conn_missing[OF h, of example_server "world_of [] 0"] r
  show ?thesis unfolding m by blast
qed

text \<open>
  C10. A required variable set to the empty string is treated as an absent one:
  \<open>get_conn\<close> gives the same result in both environments, the \<open>RuntimeError\<close> whose
  message lists the missing variables, this one among them.
\<close>

theorem empty_value_as_absent:
  assumes "v \<in> set required_vars"
  shows "get_conn srv (env(v \<mapsto> [])) w = get_conn srv (env(v := None)) w
       \<and> get_conn srv (env(v \<mapsto> [])) w
           = (Inl (RuntimeError (missing_message (missing (env(v \<mapsto> []))))), w)
       \<and> v \<in> set (missing (env(v \<mapsto> [])))
       \<and> sublist v (missing_message (missing (env(v \<mapsto> []))))"
proof -
  have "not_set (env(v \<mapsto> [])) = not_set (env(v := None))"
    by (rule ext) (simp add: not_set_def)
  then have eq: "missing (env(v \<mapsto> [])) = missing (env(v := None))"
    by (simp add: missing_def)
  from assms have mem: "v \<in> set (missing (env(v \<mapsto> [])))"
    by (simp add: missing_def not_set_def)
  then have ne: "missing (env(v \<mapsto> [])) \<noteq> []" by auto
  have 1: "get_conn srv (env(v \<mapsto> [])) w
             = (Inl (RuntimeError (missing_message (missing (env(v \<mapsto> []))))), w)"
    using ne by (simp add: get_conn_def)
  have 2: "get_conn srv (env(v := None)) w
             = (Inl (RuntimeError (missing_message (missing (env(v \<mapsto> []))))), w)"
    using ne eq by (simp add: get_conn_def)
  from 1 2 mem sublist_missing_message[OF mem] show ?thesis by simp
qed

theorem empty_value_as_absent_witness:
  "get_conn example_server (example_env(''PGPORT'' \<mapsto> [])) (world_of [] 0)
     = get_conn example_server (example_env(''PGPORT'' := None)) (world_of [] 0)
   \<and> get_conn example_server (example_env(''PGPORT'' \<mapsto> [])) (world_of [] 0)
     = (Inl (RuntimeError (''Missing env vars: PGPORT. ''
                           @ ''Set them in your environment or app/.env'')), world_of [] 0)"
proof -
  have r: "''PGPORT'' \<in> set required_vars"
    by (simp add: required_vars_def)
  have m: "missing_message (missing (example_env(''PGPORT'' \<mapsto> [])))
             = ''Missing env vars: PGPORT. '' @ ''Set them in your environment or app/.env''"
    by (simp add: missing_def not_set_def required_vars_def missing_message_def example_env_def)
  note t = empty_value_as_absent[OF r, of example_server example_env "world_of [] 0"]
  from t have a: "get_conn example_server (example_env(''PGPORT'' \<mapsto> [])) (world_of [] 0)
                    = get_conn example_server (example_env(''PGPORT'' := None)) (world_of [] 0)"
    by blast
  from t have b: "get_conn example_server (example_env(''PGPORT'' \<mapsto> [])) (world_of [] 0)
                    = (Inl (RuntimeError (missing_message
                         (missing (example_env(''PGPORT'' \<mapsto> []))))), world_of [] 0)"
    by blast
  from a b show ?thesis unfolding m by blast
qed

section \<open>The data access operations on the table\<close>

lemma mutation_fail:
  assumes "get_conn srv env w = (Inl e, w')"
  shows "with_conn (get_conn srv env) body w = (Inl e, w')"
  using assms by (simp add: with_conn_def)

lemma mutation_ok:
  assumes "get_conn srv env w = (Inr (), connected w)"
  shows "with_conn (get_conn srv env)
           (with_cursor (bind_io (execute srv ps stmt)
              (\<lambda>a. bind_io conn_commit (\<lambda>_. return_io a)))) w
         = (if list_ex (\<lambda>p. CHR 0x00 \<in> set p) ps
            then (Inl (ValueError ''A string literal cannot contain NUL (0x00) characters.''),
                  connected w)
            else (case stmt (students w) (seq w) of
                    (Inl f, s') \<Rightarrow> (Inl (db_exn srv f), (connected w)\<lparr>seq := s'\<rparr>)
                  | (Inr (a, t'), s') \<Rightarrow> (Inr a, (connected w)\<lparr>students := t', seq := s'\<rparr>)))"
  using assms
  by (simp add: with_conn_def with_cursor_def bind_io_def execute_def conn_commit_def
      return_io_def commit_def rollback_def connected_def Let_def
      split: sum.splits prod.splits)

lemma select_ok:
  assumes "get_conn srv env w = (Inr (), connected w)"
  shows "getAllStudents srv env w
         = (case traverse fetch_row (sort_key student_id (students w)) of
              Inl e \<Rightarrow> (Inl e, connected w)
            | Inr rows \<Rightarrow> (Inr rows, connected w))"
  using assms
  by (cases "traverse fetch_row (sort_key student_id (students w))")
     (simp_all add: getAllStudents_def with_conn_def with_cursor_def bind_io_def execute_def
      return_io_def commit_def rollback_def connected_def sql_select_def fetchall_def
      dict_copy_def[abs_def] Let_def)

lemma update_ok:
  assumes "get_conn srv env w = (Inr (), connected w)"
  shows "updateStudentEmail srv env sid e w
         = (if CHR 0x00 \<in> set e
            then (Inl (ValueError ''A string literal cannot contain NUL (0x00) characters.''),
                  connected w)
            else (case sql_update e sid (students w) (seq w) of
                    (Inl f, s') \<Rightarrow> (Inl (db_exn srv f), (connected w)\<lparr>seq := s'\<rparr>)
                  | (Inr (a, t'), s') \<Rightarrow> (Inr a, (connected w)\<lparr>students := t', seq := s'\<rparr>)))"
  unfolding updateStudentEmail_def mutation_ok[OF assms] by simp

lemma delete_ok:
  assumes "get_conn srv env w = (Inr (), connected w)"
  shows "deleteStudent srv env sid w
         = (case sql_delete sid (students w) (seq w) of
              (Inl f, s') \<Rightarrow> (Inl (db_exn srv f), (connected w)\<lparr>seq := s'\<rparr>)
            | (Inr (a, t'), s') \<Rightarrow> (Inr a, (connected w)\<lparr>students := t', seq := s'\<rparr>))"
  unfolding deleteStudent_def mutation_ok[OF assms] by simp

lemma add_ok:
  assumes "get_conn srv env w = (Inr (), connected w)"
  shows "addStudent srv env f l e d w
         = (if list_ex (\<lambda>p. CHR 0x00 \<in> set p) (bound_texts [f, l, e, d])
            then (Inl (ValueError ''A string literal cannot contain NUL (0x00) characters.''),
                  connected w)
            else (case sql_insert srv f l e d (students w) (seq w) of
                    (Inl x, s') \<Rightarrow> (Inl (db_exn srv x), (connected w)\<lparr>seq := s'\<rparr>)
                  | (Inr (a, t'), s') \<Rightarrow> (Inr a, (connected w)\<lparr>students := t', seq := s'\<rparr>)))"
  unfolding addStudent_def by (rule mutation_ok[OF assms])

lemma cast_shown:
  "cast_date d = (case shown_date d of
                    Some pd \<Rightarrow> Inr pd
                  | None \<Rightarrow> (case d of
                      Day y m dd \<Rightarrow>
                        if y < 1 \<or> 9999 < y
                        then Inl (ValueError (''year '' @ str_int y @ '' is out of range''))
                        else if m < 1 \<or> 12 < m then Inl (ValueError ''month must be in 1..12'')
                        else Inl (ValueError ''day is out of range for month'')))"
  by (cases d) (auto simp: cast_date_def)

lemma fetch_row_showable: "showable r \<Longrightarrow> fetch_row r = Inr (listed r)"
  by (auto simp: showable_def fetch_row_def listed_def cast_column_def cast_shown
      split: option.splits)

lemma fetch_row_not_showable: "\<not> showable r \<Longrightarrow> \<exists>m. fetch_row r = Inl (ValueError m)"
  by (auto simp: showable_def fetch_row_def cast_column_def cast_shown
      split: option.splits sql_date.splits)

lemma traverse_showable: "list_all showable t \<Longrightarrow> traverse fetch_row t = Inr (map listed t)"
  by (induction t) (simp_all add: fetch_row_showable)

lemma traverse_not_showable:
  "\<not> list_all showable t \<Longrightarrow> \<exists>m. traverse fetch_row t = Inl (ValueError m)"
proof (induction t)
  case Nil
  then show ?case by simp
next
  case (Cons r t)
  show ?case
  proof (cases "showable r")
    case True
    with Cons obtain m where "traverse fetch_row t = Inl (ValueError m)" by auto
    with True show ?thesis by (simp add: fetch_row_showable)
  next
    case False
    from fetch_row_not_showable[OF this] show ?thesis by auto
  qed
qed

lemma list_all_sort_key: "list_all P (sort_key f t) = list_all P t"
  by (simp add: list_all_iff)

lemma listing_ok:
  assumes "get_conn srv env w = (Inr (), connected w)" and "list_all showable (students w)"
  shows "getAllStudents srv env w
         = (Inr (map listed (sort_key student_id (students w))), connected w)"
  using assms(2) by (simp add: select_ok[OF assms(1)] traverse_showable list_all_sort_key)

lemma listing_fail:
  assumes "get_conn srv env w = (Inr (), connected w)" and "\<not> list_all showable (students w)"
  shows "\<exists>m. getAllStudents srv env w = (Inl (ValueError m), connected w)"
proof -
  from assms(2) have "\<not> list_all showable (sort_key student_id (students w))"
    by (simp add: list_all_sort_key)
  from traverse_not_showable[OF this] show ?thesis by (auto simp: select_ok[OF assms(1)])
qed

lemma filter_absent:
  "\<forall>r \<in> set t. student_id r \<noteq> sid \<Longrightarrow> filter (\<lambda>r. student_id r \<noteq> sid) t = t"
  by (induction t) auto

lemma filter_absent_len:
  "\<forall>r \<in> set t. student_id r \<noteq> sid \<Longrightarrow> length (filter (\<lambda>r. student_id r = sid) t) = 0"
  by (induction t) auto

lemma map_set_email_absent:
  "\<forall>r \<in> set t. student_id r \<noteq> sid \<Longrightarrow>
   map (\<lambda>r. if student_id r = sid then r\<lparr>email := e\<rparr> else r) t = t"
  by (induction t) auto

lemma count_pk:
  "distinct (map student_id t) \<Longrightarrow> \<exists>r \<in> set t. student_id r = sid \<Longrightarrow>
   length (filter (\<lambda>r. student_id r = sid) t) = 1"
proof (induction t)
  case Nil
  then show ?case by simp
next
  case (Cons a t)
  show ?case
  proof (cases "student_id a = sid")
    case True
    from Cons.prems have "student_id a \<notin> student_id ` set t" by simp
    with True have "\<forall>r \<in> set t. student_id r \<noteq> sid" by (metis imageI)
    with True show ?thesis by (simp add: filter_absent_len)
  next
    case False
    with Cons show ?thesis by auto
  qed
qed

lemma insort_key_map_same:
  assumes "\<And>y. f (g y) = f y"
  shows "insort_key f (g x) (map g xs) = map g (insort_key f x xs)"
  by (induction xs) (simp_all add: assms)

lemma sort_key_map_same:
  assumes "\<And>y. f (g y) = f y"
  shows "sort_key f (map g xs) = map g (sort_key f xs)"
  using assms by (induction xs) (simp_all add: insort_key_map_same)

lemma sort_set_email:
  "sort_key student_id (map (set_email sid e) t) = map (set_email sid e) (sort_key student_id t)"
  by (rule sort_key_map_same) (simp add: set_email_def)

lemma showable_set_email: "showable (set_email sid e r) = showable r"
  by (simp add: showable_def set_email_def)

lemma list_all_showable_set_email:
  "list_all showable (map (set_email sid e) t) = list_all showable t"
  by (simp add: list_all_iff showable_set_email)

text \<open>
  C7. When no record has the given id, \<open>deleteStudent\<close> leaves the table as it was, and
  returns the count 0 whenever the connection is acquired (otherwise it raises the error
  of the acquisition).
\<close>

theorem deleteStudent_absent:
  assumes "\<forall>r \<in> set (students w). student_id r \<noteq> sid"
  shows "students (snd (deleteStudent srv env sid w)) = students w
       \<and> (fst (get_conn srv env w) = Inr () \<longrightarrow> fst (deleteStudent srv env sid w) = Inr 0)
       \<and> (\<forall>e. fst (get_conn srv env w) = Inl e \<longrightarrow> fst (deleteStudent srv env sid w) = Inl e)"
proof (cases rule: get_conn_cases[of srv env w])
  case (fail e k)
  from fail(2) have "deleteStudent srv env sid w = (Inl e, w\<lparr>connects := connects w + k\<rparr>)"
    unfolding deleteStudent_def by (rule mutation_fail)
  with fail show ?thesis by simp
next
  case ok
  from delete_ok[OF ok] assms ok show ?thesis
    by (simp add: sql_delete_def filter_absent filter_absent_len connected_def)
qed

theorem deleteStudent_absent_witness:
  "students (snd (deleteStudent example_server example_env 5 (world_of [ada] 1))) = [ada]
   \<and> fst (deleteStudent example_server example_env 5 (world_of [ada] 1)) = Inr 0"
proof -
  have h: "\<forall>r \<in> set (students (world_of [ada] 1)). student_id r \<noteq> 5"
    by (simp add: world_of_def ada_def)
  from deleteStudent_absent[OF h, of example_server example_env] example_conn
  show ?thesis by (simp add: world_of_def)
qed

text \<open>
  C1, as amended. With the connection acquired and the ids of the table distinct (the
  primary key): for an email that holds the NUL character the driver raises \<open>ValueError\<close>
  and the table is as it was. For any other email, \<open>updateStudentEmail\<close> returns 0 and
  leaves the table as it was when no record has the id; when a record has the id and no
  other record holds the new email, it returns 1, the table is the former one with that
  record's email replaced, and the next \<open>getAllStudents\<close>, when its connection is acquired
  and every stored date is one the driver can show, returns the former listing with that
  record's email replaced and nothing else changed; when another record holds the new
  email, the store refuses the statement, the operation raises \<open>UniqueViolation\<close> and the
  table is as it was.
\<close>

theorem updateStudentEmail_result:
  assumes conn: "fst (get_conn srv env w) = Inr ()"
      and pk: "distinct (map student_id (students w))"
  shows "(CHR 0x00 \<in> set e \<longrightarrow>
            fst (updateStudentEmail srv env sid e w)
              = Inl (ValueError ''A string literal cannot contain NUL (0x00) characters.'')
          \<and> students (snd (updateStudentEmail srv env sid e w)) = students w)
       \<and> (CHR 0x00 \<notin> set e \<and> (\<forall>r \<in> set (students w). student_id r \<noteq> sid) \<longrightarrow>
            fst (updateStudentEmail srv env sid e w) = Inr 0
          \<and> students (snd (updateStudentEmail srv env sid e w)) = students w)
       \<and> (CHR 0x00 \<notin> set e \<and> (\<exists>r \<in> set (students w). student_id r = sid)
          \<and> (\<forall>r \<in> set (students w). student_id r \<noteq> sid \<longrightarrow> email r \<noteq> e) \<longrightarrow>
            fst (updateStudentEmail srv env sid e w) = Inr 1
          \<and> students (snd (updateStudentEmail srv env sid e w))
              = map (set_email sid e) (students w)
          \<and> (fst (get_conn srv env (snd (updateStudentEmail srv env sid e w))) = Inr ()
             \<and> list_all showable (students w) \<longrightarrow>
             fst (getAllStudents srv env (snd (updateStudentEmail srv env sid e w)))
               = Inr (map listed (map (set_email sid e) (sort_key student_id (students w))))))
       \<and> (CHR 0x00 \<notin> set e \<and> (\<exists>r \<in> set (students w). student_id r = sid)
          \<and> (\<exists>r \<in> set (students w). student_id r \<noteq> sid \<and> email r = e) \<longrightarrow>
            fst (updateStudentEmail srv env sid e w)
              = Inl (UniqueViolation (diag srv (EmailTaken e)))
          \<and> students (snd (updateStudentEmail srv env sid e w)) = students w)"
proof -
  let ?w' = "snd (updateStudentEmail srv env sid e w)"
  from conn have ok: "get_conn srv env w = (Inr (), connected w)" by (rule get_conn_Inr)
  note upd = update_ok[OF ok, of sid e]
  have nul: "fst (updateStudentEmail srv env sid e w)
              = Inl (ValueError ''A string literal cannot contain NUL (0x00) characters.'')
      \<and> students ?w' = students w"
    if "CHR 0x00 \<in> set e"
    using that upd by (simp add: connected_def)
  have absent: "fst (updateStudentEmail srv env sid e w) = Inr 0 \<and> students ?w' = students w"
    if "CHR 0x00 \<notin> set e" and "\<forall>r \<in> set (students w). student_id r \<noteq> sid"
    using that upd
    by (simp add: sql_update_def filter_absent_len map_set_email_absent connected_def)
  have present: "fst (updateStudentEmail srv env sid e w) = Inr 1
      \<and> students ?w' = map (set_email sid e) (students w)
      \<and> (fst (get_conn srv env ?w') = Inr () \<and> list_all showable (students w) \<longrightarrow>
         fst (getAllStudents srv env ?w')
           = Inr (map listed (map (set_email sid e) (sort_key student_id (students w)))))"
    if nn: "CHR 0x00 \<notin> set e"
      and ex: "\<exists>r \<in> set (students w). student_id r = sid"
      and free: "\<forall>r \<in> set (students w). student_id r \<noteq> sid \<longrightarrow> email r \<noteq> e"
  proof -
    from free have nt: "\<not> (\<exists>r \<in> set (students w). student_id r \<noteq> sid \<and> email r = e)"
      by blast
    have st: "updateStudentEmail srv env sid e w
        = (Inr 1, (connected w)\<lparr>students := map (set_email sid e) (students w)\<rparr>)"
      using upd nn nt count_pk[OF pk ex]
      by (simp add: sql_update_def set_email_def[abs_def] connected_def)
    have "fst (getAllStudents srv env ?w')
           = Inr (map listed (map (set_email sid e) (sort_key student_id (students w))))"
      if c: "fst (get_conn srv env ?w') = Inr ()" and s: "list_all showable (students w)"
    proof -
      from c have g: "get_conn srv env ?w' = (Inr (), connected ?w')" by (rule get_conn_Inr)
      from s st have "list_all showable (students ?w')"
        by (simp add: list_all_showable_set_email)
      from listing_ok[OF g this] st show ?thesis by (simp add: sort_set_email)
    qed
    with st show ?thesis by simp
  qed
  have taken: "fst (updateStudentEmail srv env sid e w)
                 = Inl (UniqueViolation (diag srv (EmailTaken e)))
      \<and> students ?w' = students w"
    if "CHR 0x00 \<notin> set e" and "\<exists>r \<in> set (students w). student_id r = sid"
      and "\<exists>r \<in> set (students w). student_id r \<noteq> sid \<and> email r = e"
    using that upd by (simp add: sql_update_def db_exn_def connected_def)
  from nul absent present taken show ?thesis by blast
qed

theorem updateStudentEmail_result_witness:
  "fst (updateStudentEmail example_server example_env 7 ''new@example.com''
          (world_of [bob, ada] 2)) = Inr 0
   \<and> fst (updateStudentEmail example_server example_env 1 ''new@example.com''
            (world_of [bob, ada] 2)) = Inr 1
   \<and> fst (getAllStudents example_server example_env
        (snd (updateStudentEmail example_server example_env 1 ''new@example.com''
                (world_of [bob, ada] 2))))
       = Inr [[(''student_id'', PInt 1), (''first_name'', PStr ''Ada''),
               (''last_name'', PStr ''Lovelace''), (''email'', PStr ''new@example.com''),
               (''enrollment_date'', PNone)],
              [(''student_id'', PInt 2), (''first_name'', PStr ''Bob''),
               (''last_name'', PStr ''Stone''), (''email'', PStr ''bob@example.com''),
               (''enrollment_date'', PDate \<lparr>year = 2023, month = 9, day = 3\<rparr>)]]
   \<and> students (snd (updateStudentEmail example_server example_env 1 ''bob@example.com''
                      (world_of [bob, ada] 2)))
       = [bob, ada]
   \<and> fst (updateStudentEmail example_server example_env 1 [CHR ''a'', CHR 0x00]
            (world_of [bob, ada] 2))
       = Inl (ValueError ''A string literal cannot contain NUL (0x00) characters.'')"
proof -
  have pk: "distinct (map student_id (students (world_of [bob, ada] 2)))"
    by (simp add: world_of_def ada_def bob_def)
  note t = updateStudentEmail_result[OF example_conn pk]
  have a: "CHR 0x00 \<notin> set ''new@example.com''
        \<and> (\<forall>r \<in> set (students (world_of [bob, ada] 2)). student_id r \<noteq> 7)"
    by (simp add: world_of_def ada_def bob_def)
  have b: "CHR 0x00 \<notin> set ''new@example.com''
        \<and> (\<exists>r \<in> set (students (world_of [bob, ada] 2)). student_id r = 1)
        \<and> (\<forall>r \<in> set (students (world_of [bob, ada] 2)).
              student_id r \<noteq> 1 \<longrightarrow> email r \<noteq> ''new@example.com'')"
    by (simp add: world_of_def ada_def bob_def)
  have c: "CHR 0x00 \<notin> set ''bob@example.com''
        \<and> (\<exists>r \<in> set (students (world_of [bob, ada] 2)). student_id r = 1)
        \<and> (\<exists>r \<in> set (students (world_of [bob, ada] 2)).
              student_id r \<noteq> 1 \<and> email r = ''bob@example.com'')"
    by (simp add: world_of_def ada_def bob_def)
  have d: "CHR 0x00 \<in> set [CHR ''a'', CHR 0x00]"
    by simp
  have sh: "list_all showable (students (world_of [bob, ada] 2))"
    by (simp add: world_of_def ada_def bob_def showable_def days_in_month_def)
  have s: "map listed (map (set_email 1 ''new@example.com'')
             (sort_key student_id (students (world_of [bob, ada] 2))))
           = [[(''student_id'', PInt 1), (''first_name'', PStr ''Ada''),
               (''last_name'', PStr ''Lovelace''), (''email'', PStr ''new@example.com''),
               (''enrollment_date'', PNone)],
              [(''student_id'', PInt 2), (''first_name'', PStr ''Bob''),
               (''last_name'', PStr ''Stone''), (''email'', PStr ''bob@example.com''),
               (''enrollment_date'', PDate \<lparr>year = 2023, month = 9, day = 3\<rparr>)]]"
    by (simp add: world_of_def ada_def bob_def set_email_def listed_def days_in_month_def)
  from t[of "''new@example.com''" 7] a
  have 1: "fst (updateStudentEmail example_server example_env 7 ''new@example.com''
                  (world_of [bob, ada] 2)) = Inr 0"
    by blast
  from t[of "''new@example.com''" 1] b sh example_conn
  have 2: "fst (updateStudentEmail example_server example_env 1 ''new@example.com''
                  (world_of [bob, ada] 2)) = Inr 1
   \<and> fst (getAllStudents example_server example_env
        (snd (updateStudentEmail example_server example_env 1 ''new@example.com''
                (world_of [bob, ada] 2))))
       = Inr (map listed (map (set_email 1 ''new@example.com'')
             (sort_key student_id (students (world_of [bob, ada] 2)))))"
    by blast
  from t[of "''bob@example.com''" 1] c
  have 3: "students (snd (updateStudentEmail example_server example_env 1 ''bob@example.com''
                            (world_of [bob, ada] 2)))
       = [bob, ada]"
    by (simp add: world_of_def)
  from t[of "[CHR ''a'', CHR 0x00]" 1] d
  have 4: "fst (updateStudentEmail example_server example_env 1 [CHR ''a'', CHR 0x00]
            (world_of [bob, ada] 2))
       = Inl (ValueError ''A string literal cannot contain NUL (0x00) characters.'')"
    by blast
  from 1 2 3 4 show ?thesis unfolding s by simp
qed

text \<open>
  The claim as stated fails. Record 1 exists, the new email is not empty, the connection
  is acquired, and the operation does not return 1: because record 2 holds the email; and
  because the email holds the NUL character. And after an update that returned 1 the
  listing raises instead of showing the record, because the table holds a date of the
  year 10000.
\<close>

theorem updateStudentEmail_counterexample:
  "student_id (hd (students (world_of [ada, bob] 2))) = 1
   \<and> fst (updateStudentEmail example_server example_env 1 ''bob@example.com''
            (world_of [ada, bob] 2))
       = Inl (UniqueViolation ''duplicate key value violates unique constraint'')
   \<and> fst (updateStudentEmail example_server example_env 1 [CHR ''a'', CHR 0x00]
            (world_of [ada, bob] 2))
       = Inl (ValueError ''A string literal cannot contain NUL (0x00) characters.'')
   \<and> fst (updateStudentEmail example_server example_env 1 ''new@example.com''
            (world_of [ada, eve] 3)) = Inr 1
   \<and> fst (getAllStudents example_server example_env
            (snd (updateStudentEmail example_server example_env 1 ''new@example.com''
                    (world_of [ada, eve] 3))))
       = Inl (ValueError ''year 10000 is out of range'')"
proof -
  let ?w = "snd (updateStudentEmail example_server example_env 1 ''new@example.com''
                   (world_of [ada, eve] 3))"
  have 1: "student_id (hd (students (world_of [ada, bob] 2))) = 1"
    by (simp add: world_of_def ada_def)
  have 2: "fst (updateStudentEmail example_server example_env 1 ''bob@example.com''
                  (world_of [ada, bob] 2))
       = Inl (UniqueViolation ''duplicate key value violates unique constraint'')"
    by code_simp
  have 3: "fst (updateStudentEmail example_server example_env 1 [CHR ''a'', CHR 0x00]
                  (world_of [ada, bob] 2))
       = Inl (ValueError ''A string literal cannot contain NUL (0x00) characters.'')"
    by code_simp
  have c: "get_conn example_server example_env (world_of [ada, eve] 3)
             = (Inr (), connected (world_of [ada, eve] 3))"
    using example_conn by (rule get_conn_Inr)
  have u: "updateStudentEmail example_server example_env 1 ''new@example.com''
             (world_of [ada, eve] 3)
           = (Inr 1, (connected (world_of [ada, eve] 3))
                       \<lparr>students := [ada\<lparr>email := ''new@example.com''\<rparr>, eve], seq := 3\<rparr>)"
    unfolding update_ok[OF c]
    by (simp add: sql_update_def world_of_def ada_def eve_def)
  have c': "get_conn example_server example_env ?w = (Inr (), connected ?w)"
    using example_conn by (rule get_conn_Inr)
  have t: "traverse fetch_row (sort_key student_id (students ?w))
             = Inl (ValueError ''year 10000 is out of range'')"
    unfolding u
    by (simp add: ada_def eve_def fetch_row_def cast_column_def cast_date_def str_int_def
        digits.simps)
  have 5: "fst (getAllStudents example_server example_env ?w)
             = Inl (ValueError ''year 10000 is out of range'')"
    by (simp add: select_ok[OF c'] t)
  from 1 2 3 u 5 show ?thesis by simp
qed

lemma add_students_fail:
  "fst (addStudent srv env f l e d w) = Inl x \<Longrightarrow>
   students (snd (addStudent srv env f l e d w)) = students w"
proof (cases rule: get_conn_cases[of srv env w])
  case (fail e' k)
  from fail(2) have "addStudent srv env f l e d w = (Inl e', w\<lparr>connects := connects w + k\<rparr>)"
    unfolding addStudent_def by (rule mutation_fail)
  then show ?thesis by simp
next
  case ok
  assume "fst (addStudent srv env f l e d w) = Inl x"
  with add_ok[OF ok, of f l e d] show ?thesis
    by (auto simp: connected_def split: sum.splits prod.splits if_splits)
qed

lemma add_conn_fail:
  assumes "fst (get_conn srv env w) \<noteq> Inr ()"
  shows "\<exists>x. fst (addStudent srv env f l e d w) = Inl x"
proof (cases rule: get_conn_cases[of srv env w])
  case (fail e' k)
  from fail(2) have "addStudent srv env f l e d w = (Inl e', w\<lparr>connects := connects w + k\<rparr>)"
    unfolding addStudent_def by (rule mutation_fail)
  then show ?thesis by simp
next
  case ok
  with assms show ?thesis by simp
qed

lemma not_parsed:
  assumes "\<not> parses_as_date srv x"
  shows "read_date srv x \<noteq> Reads dt"
proof (cases "ymd_form x")
  case True
  with assms have "\<not> names_day x" by (simp add: parses_as_date_def)
  with True show ?thesis by (auto simp: read_date_def names_day_def ymd_form_def Let_def)
next
  case False
  then have "length x \<noteq> 10 \<or> x ! 4 \<noteq> CHR ''-'' \<or> x ! 7 \<noteq> CHR ''-''
      \<or> list_ex (\<lambda>c. (of_char c :: nat) < 48 \<or> 57 < (of_char c :: nat))
           (take 4 x @ take 2 (drop 5 x) @ drop 8 x)"
    unfolding ymd_form_def list_all_iff list_ex_iff is_digit_def by (auto simp: not_le)
  with assms have "other_dates srv x = None" unfolding parses_as_date_def by blast
  with False show ?thesis by (simp add: read_date_def)
qed

lemma insert_bad_date:
  assumes "\<not> parses_as_date srv x"
  shows "\<exists>y. fst (sql_insert srv f l e (Some x) t s) = Inl y"
proof (cases "read_date srv x")
  case (Reads dt)
  with not_parsed[OF assms, of dt] show ?thesis by simp
qed (simp_all add: sql_insert_def)

lemma insert_missing:
  assumes "f = None \<or> l = None \<or> e = None"
  shows "\<exists>y. fst (sql_insert srv f l e d t s) = Inl y"
proof (cases "case d of None \<Rightarrow> Inr None
              | Some x \<Rightarrow> (case read_date srv x of
                             Malformed \<Rightarrow> Inl (BadDate x)
                           | OutOfRange \<Rightarrow> Inl (DateOutOfRange x)
                           | Reads dt \<Rightarrow> Inr (Some dt))")
  case (Inl a)
  then show ?thesis by (simp add: sql_insert_def)
next
  case (Inr dv)
  with assms show ?thesis
    by (cases f; cases l; cases e) (simp_all add: sql_insert_def)
qed

lemma add_stmt_fail:
  assumes "\<exists>y. fst (sql_insert srv f l e d (students w) (seq w)) = Inl y"
  shows "\<exists>x. fst (addStudent srv env f l e d w) = Inl x"
proof (cases "fst (get_conn srv env w) = Inr ()")
  case False
  then show ?thesis by (rule add_conn_fail)
next
  case True
  then have ok: "get_conn srv env w = (Inr (), connected w)" by (rule get_conn_Inr)
  from assms obtain y s' where "sql_insert srv f l e d (students w) (seq w) = (Inl y, s')"
    by (cases "sql_insert srv f l e d (students w) (seq w)") auto
  with add_ok[OF ok, of f l e d] show ?thesis by simp
qed

text \<open>
  C3, as amended. When the date argument is present and does not parse as a calendar
  date (it does not name a day in the form \<open>YYYY-MM-DD\<close>, and is no text of another form
  that the server reads as a date), and when the first name, the last name or the email
  is missing (\<open>None\<close>), \<open>addStudent\<close> raises and the table is as it was. The program has
  no check of its own: the refusals are the store's, or come before the store is reached.
\<close>

theorem addStudent_checks:
  "(\<not> parses_as_date srv x \<longrightarrow>
      (\<exists>err. fst (addStudent srv env f l e (Some x) w) = Inl err)
    \<and> students (snd (addStudent srv env f l e (Some x) w)) = students w)
 \<and> (f = None \<or> l = None \<or> e = None \<longrightarrow>
      (\<exists>err. fst (addStudent srv env f l e d w) = Inl err)
    \<and> students (snd (addStudent srv env f l e d w)) = students w)"
proof -
  have bad: "(\<exists>err. fst (addStudent srv env f l e (Some x) w) = Inl err)
      \<and> students (snd (addStudent srv env f l e (Some x) w)) = students w"
    if "\<not> parses_as_date srv x"
  proof -
    from insert_bad_date[OF that]
    have "\<exists>err. fst (addStudent srv env f l e (Some x) w) = Inl err" by (rule add_stmt_fail)
    then show ?thesis using add_students_fail by blast
  qed
  have missing: "(\<exists>err. fst (addStudent srv env f l e d w) = Inl err)
      \<and> students (snd (addStudent srv env f l e d w)) = students w"
    if "f = None \<or> l = None \<or> e = None"
  proof -
    from insert_missing[OF that]
    have "\<exists>err. fst (addStudent srv env f l e d w) = Inl err" by (rule add_stmt_fail)
    then show ?thesis using add_students_fail by blast
  qed
  from bad missing show ?thesis by blast
qed

text \<open>
  A date of the right form that names no day, a text that is no date, and a missing last
  name: each insert raises the error of the store, and the table is as it was.
\<close>

theorem addStudent_checks_witness:
  "fst (addStudent example_server example_env (Some ''Ada'') (Some ''Lovelace'')
          (Some ''ada@example.com'') (Some ''2023-02-30'') (world_of [bob] 2))
      = Inl (DatetimeFieldOverflow ''date/time field value out of range'')
   \<and> students (snd (addStudent example_server example_env (Some ''Ada'') (Some ''Lovelace'')
                      (Some ''ada@example.com'') (Some ''2023-02-30'') (world_of [bob] 2)))
       = [bob]
   \<and> fst (addStudent example_server example_env (Some ''Ada'') (Some ''Lovelace'')
          (Some ''ada@example.com'') (Some ''not-a-date'') (world_of [bob] 2))
      = Inl (InvalidDatetimeFormat ''invalid input syntax for type date'')
   \<and> students (snd (addStudent example_server example_env (Some ''Ada'') (Some ''Lovelace'')
                      (Some ''ada@example.com'') (Some ''not-a-date'') (world_of [bob] 2)))
       = [bob]
   \<and> fst (addStudent example_server example_env (Some ''Ada'') None
            (Some ''ada@example.com'') None (world_of [bob] 2))
      = Inl (NotNullViolation ''null value violates not-null constraint'')
   \<and> students (snd (addStudent example_server example_env (Some ''Ada'') None
                      (Some ''ada@example.com'') None (world_of [bob] 2)))
       = [bob]"
proof -
  have d1: "\<not> parses_as_date example_server ''2023-02-30''"
    by (simp add: parses_as_date_def names_day_def is_digit_def decimal_def days_in_month_def)
  have d2: "\<not> parses_as_date example_server ''not-a-date''"
    by (simp add: parses_as_date_def names_day_def example_server_def)
  have x: "fst (addStudent example_server example_env (Some ''Ada'') (Some ''Lovelace'')
                  (Some ''ada@example.com'') (Some ''2023-02-30'') (world_of [bob] 2))
      = Inl (DatetimeFieldOverflow ''date/time field value out of range'')"
    by code_simp
  have y: "fst (addStudent example_server example_env (Some ''Ada'') (Some ''Lovelace'')
          (Some ''ada@example.com'') (Some ''not-a-date'') (world_of [bob] 2))
      = Inl (InvalidDatetimeFormat ''invalid input syntax for type date'')"
    by code_simp
  have z: "fst (addStudent example_server example_env (Some ''Ada'') None
            (Some ''ada@example.com'') None (world_of [bob] 2))
      = Inl (NotNullViolation ''null value violates not-null constraint'')"
    by code_simp
  from addStudent_checks[where srv = example_server and x = "''2023-02-30''"
      and env = example_env and f = "Some ''Ada''" and l = "Some ''Lovelace''"
      and e = "Some ''ada@example.com''" and w = "world_of [bob] 2"] d1
  have 1: "students (snd (addStudent example_server example_env (Some ''Ada'')
                     (Some ''Lovelace'') (Some ''ada@example.com'') (Some ''2023-02-30'')
                     (world_of [bob] 2)))
             = [bob]"
    by (simp add: world_of_def)
  from addStudent_checks[where srv = example_server and x = "''not-a-date''"
      and env = example_env and f = "Some ''Ada''" and l = "Some ''Lovelace''"
      and e = "Some ''ada@example.com''" and w = "world_of [bob] 2"] d2
  have 2: "students (snd (addStudent example_server example_env (Some ''Ada'')
                     (Some ''Lovelace'') (Some ''ada@example.com'') (Some ''not-a-date'')
                     (world_of [bob] 2)))
             = [bob]"
    by (simp add: world_of_def)
  from addStudent_checks[where srv = example_server and env = example_env
      and f = "Some ''Ada''" and l = None and e = "Some ''ada@example.com''" and d = None
      and w = "world_of [bob] 2"]
  have 3: "students (snd (addStudent example_server example_env (Some ''Ada'') None
                      (Some ''ada@example.com'') None (world_of [bob] 2)))
             = [bob]"
    by (simp add: world_of_def)
  from x y z 1 2 3 show ?thesis by simp
qed

text \<open>
  The claim as stated fails: an insert whose first name is the empty string returns the
  new id, and the record, its first name empty, is in the table.
\<close>

theorem addStudent_empty_name_counterexample:
  "fst (addStudent example_server example_env (Some []) (Some ''Lovelace'')
          (Some ''ada@example.com'') None (world_of [] 0)) = Inr 1
   \<and> students (snd (addStudent example_server example_env (Some []) (Some ''Lovelace'')
                      (Some ''ada@example.com'') None (world_of [] 0)))
       = [\<lparr>student_id = 1, first_name = [], last_name = ''Lovelace'',
            email = ''ada@example.com'', enrollment_date = None\<rparr>]"
  by code_simp

section \<open>Handles\<close>

text \<open>
  C4. No operation closes the connection it acquired: the source never calls \<open>close\<close> on
  it, and leaving \<open>with get_conn() as conn\<close> ends the transaction only. With no connection
  open before, the connection that \<open>getAllStudents\<close> opened has not been closed when it
  has returned its rows, and the one that \<open>addStudent\<close> opened has not been closed when it
  has raised for a date the store does not read; the cursor is closed and no transaction
  is in progress in both cases.
\<close>

theorem operations_leave_connection_open:
  "open_conns (world_of [ada] 1) = 0
 \<and> fst (getAllStudents example_server example_env (world_of [ada] 1))
     = Inr [[(''student_id'', PInt 1), (''first_name'', PStr ''Ada''),
             (''last_name'', PStr ''Lovelace''), (''email'', PStr ''ada@example.com''),
             (''enrollment_date'', PNone)]]
 \<and> open_conns (snd (getAllStudents example_server example_env (world_of [ada] 1))) = 1
 \<and> open_cursors (snd (getAllStudents example_server example_env (world_of [ada] 1))) = 0
 \<and> txn (snd (getAllStudents example_server example_env (world_of [ada] 1))) = None
 \<and> fst (addStudent example_server example_env (Some ''Bob'') (Some ''Stone'')
          (Some ''bob@example.com'') (Some ''soon'') (world_of [ada] 1))
     = Inl (InvalidDatetimeFormat ''invalid input syntax for type date'')
 \<and> open_conns (snd (addStudent example_server example_env (Some ''Bob'') (Some ''Stone'')
          (Some ''bob@example.com'') (Some ''soon'') (world_of [ada] 1))) = 1
 \<and> open_cursors (snd (addStudent example_server example_env (Some ''Bob'') (Some ''Stone'')
          (Some ''bob@example.com'') (Some ''soon'') (world_of [ada] 1))) = 0
 \<and> txn (snd (addStudent example_server example_env (Some ''Bob'') (Some ''Stone'')
          (Some ''bob@example.com'') (Some ''soon'') (world_of [ada] 1))) = None"
  by code_simp

section \<open>Rendering\<close>

text \<open>
  C8. For the empty sequence \<open>print_table\<close> prints the one line \<open>(no rows)\<close> and
  returns: nothing else is added to the output, and nothing else in the world changes.
\<close>

theorem print_table_empty:
  "print_table [] w = (Inr (), w\<lparr>stdout := stdout w @ [''(no rows)'']\<rparr>)"
  by (simp add: print_table_def print_def)

lemma only_prints_print: "only_prints (print s)"
  unfolding only_prints_def print_def by auto

lemma only_prints_raise: "only_prints (raise_io e)"
  unfolding only_prints_def raise_io_def by (auto intro: exI[of _ "[]"])

lemma only_prints_return: "only_prints (return_io a)"
  unfolding only_prints_def return_io_def by (auto intro: exI[of _ "[]"])

lemma only_prints_bind:
  assumes m: "only_prints m" and f: "\<And>a. only_prints (f a)"
  shows "only_prints (bind_io m f)"
  unfolding only_prints_def
proof
  fix w
  from m obtain o1 where 1: "snd (m w) = w\<lparr>stdout := stdout w @ o1\<rparr>"
    unfolding only_prints_def by blast
  show "\<exists>out. snd (bind_io m f w) = w\<lparr>stdout := stdout w @ out\<rparr>"
  proof (cases "fst (m w)")
    case (Inl e)
    then have "bind_io m f w = (Inl e, snd (m w))"
      by (cases "m w") (simp add: bind_io_def)
    with 1 show ?thesis by auto
  next
    case (Inr a)
    then have b: "bind_io m f w = f a (snd (m w))"
      by (cases "m w") (simp add: bind_io_def)
    from f[of a] obtain o2 where "snd (f a (snd (m w))) = (snd (m w))\<lparr>stdout := stdout (snd (m w)) @ o2\<rparr>"
      unfolding only_prints_def by blast
    with 1 b have "snd (bind_io m f w) = w\<lparr>stdout := stdout w @ (o1 @ o2)\<rparr>" by simp
    then show ?thesis by blast
  qed
qed

lemma only_prints_line: "only_prints (line ws hs c)"
  unfolding line_def by (simp add: only_prints_print only_prints_raise split: sum.splits)

lemma only_prints_header: "only_prints (print_header ws hs)"
  unfolding print_header_def by (simp add: only_prints_print only_prints_raise split: sum.splits)

lemma only_prints_row: "only_prints (print_row ws hs r)"
  unfolding print_row_def by (simp add: only_prints_print only_prints_raise split: sum.splits)

lemma only_prints_rows: "only_prints (print_rows ws hs rs)"
  by (induction rs) (simp_all add: only_prints_return only_prints_bind only_prints_row)

lemma only_prints_table: "only_prints (print_table rows)"
  unfolding print_table_def
  by (simp add: Let_def only_prints_print only_prints_raise only_prints_bind only_prints_line
      only_prints_header only_prints_rows del: print_rows.simps split: list.splits sum.splits)

lemma print_table_frame:
  "students (snd (print_table rows w)) = students w"
  "seq (snd (print_table rows w)) = seq w"
  "txn (snd (print_table rows w)) = txn w"
  "connects (snd (print_table rows w)) = connects w"
  "stderr (snd (print_table rows w)) = stderr w"
proof -
  from only_prints_table[of rows] obtain out
    where "snd (print_table rows w) = w\<lparr>stdout := stdout w @ out\<rparr>"
    unfolding only_prints_def by blast
  then show "students (snd (print_table rows w)) = students w"
    "seq (snd (print_table rows w)) = seq w"
    "txn (snd (print_table rows w)) = txn w"
    "connects (snd (print_table rows w)) = connects w"
    "stderr (snd (print_table rows w)) = stderr w"
    by simp_all
qed

lemma traverse_ok: "\<forall>x \<in> set xs. f x = Inr (g x) \<Longrightarrow> traverse f xs = Inr (map g xs)"
  by (induction xs) simp_all

lemma widths_row_ok:
  assumes "\<forall>h \<in> set hs. \<exists>n. ws h = Some n" and "\<forall>h \<in> set hs. \<exists>v. map_of r h = Some v"
  shows "widths_row r hs ws
         = Inr (\<lambda>h. if h \<in> set hs then Some (max (the (ws h)) (cell_len (the (map_of r h))))
                    else ws h)"
  using assms
proof (induction hs arbitrary: ws)
  case Nil
  then show ?case by simp
next
  case (Cons h hs)
  from Cons.prems obtain n v where n: "ws h = Some n" and v: "map_of r h = Some v" by auto
  let ?ws1 = "ws(h \<mapsto> max n (cell_len v))"
  have d: "\<forall>k \<in> set hs. \<exists>m. ?ws1 k = Some m" using Cons.prems(1) by auto
  have k: "\<forall>k \<in> set hs. \<exists>v. map_of r k = Some v" using Cons.prems(2) by auto
  have "widths_row r (h # hs) ws = widths_row r hs ?ws1"
    using n v by (simp add: subscript_def)
  also have "\<dots> = Inr (\<lambda>k. if k \<in> set hs then Some (max (the (?ws1 k)) (cell_len (the (map_of r k))))
                    else ?ws1 k)"
    by (rule Cons.IH[OF d k])
  also have "(\<lambda>k. if k \<in> set hs then Some (max (the (?ws1 k)) (cell_len (the (map_of r k))))
                    else ?ws1 k)
           = (\<lambda>k. if k \<in> set (h # hs) then Some (max (the (ws k)) (cell_len (the (map_of r k))))
                    else ws k)"
    using n v by (auto simp: fun_eq_iff)
  finally show ?case .
qed

lemma widths_rows_ok:
  assumes "\<forall>h \<in> set hs. \<exists>n. ws h = Some n"
    and "\<forall>r \<in> set rows. \<forall>h \<in> set hs. \<exists>v. map_of r h = Some v"
  shows "widths_rows rows hs ws
         = Inr (\<lambda>h. if h \<in> set hs
                    then Some (fold (\<lambda>r n. max n (cell_len (the (map_of r h)))) rows (the (ws h)))
                    else ws h)"
  using assms
proof (induction rows arbitrary: ws)
  case Nil
  then have "(\<lambda>h. if h \<in> set hs
                  then Some (fold (\<lambda>r n. max n (cell_len (the (map_of r h)))) [] (the (ws h)))
                  else ws h) = ws"
    by (auto simp: fun_eq_iff)
  then show ?case by (simp only: widths_rows.simps)
next
  case (Cons r rows)
  let ?ws1 = "\<lambda>h. if h \<in> set hs then Some (max (the (ws h)) (cell_len (the (map_of r h)))) else ws h"
  have 1: "widths_row r hs ws = Inr ?ws1"
    using Cons.prems by (intro widths_row_ok) auto
  have d: "\<forall>h \<in> set hs. \<exists>n. ?ws1 h = Some n" by simp
  have k: "\<forall>r \<in> set rows. \<forall>h \<in> set hs. \<exists>v. map_of r h = Some v" using Cons.prems(2) by auto
  have "widths_rows (r # rows) hs ws = widths_rows rows hs ?ws1"
    using 1 by simp
  also have "\<dots> = Inr (\<lambda>h. if h \<in> set hs
                    then Some (fold (\<lambda>r n. max n (cell_len (the (map_of r h)))) rows (the (?ws1 h)))
                    else ?ws1 h)"
    by (rule Cons.IH[OF d k])
  also have "(\<lambda>h. if h \<in> set hs
                    then Some (fold (\<lambda>r n. max n (cell_len (the (map_of r h)))) rows (the (?ws1 h)))
                    else ?ws1 h)
       = (\<lambda>h. if h \<in> set hs
                    then Some (fold (\<lambda>r n. max n (cell_len (the (map_of r h)))) (r # rows) (the (ws h)))
                    else ws h)"
    by (auto simp: fun_eq_iff)
  finally show ?case .
qed

lemma fold_max_col_width:
  "fold (\<lambda>r n. max n (cell_len (the (map_of r h)))) rows (length h) = col_width rows h"
proof -
  have "col_width rows h = fold max (map (\<lambda>r. cell_len (the (map_of r h))) rows) (length h)"
    unfolding col_width_def by (rule Max.set_eq_fold)
  also have "\<dots> = fold (max \<circ> (\<lambda>r. cell_len (the (map_of r h)))) rows (length h)"
    by (simp add: fold_map)
  also have "max \<circ> (\<lambda>r. cell_len (the (map_of r h))) = (\<lambda>r n. max n (cell_len (the (map_of r h))))"
    by (auto simp: fun_eq_iff max.commute)
  finally show ?thesis by simp
qed

lemma initial_widths:
  "h \<in> set hs \<Longrightarrow> map_of (map (\<lambda>h. (h, length h)) hs) h = Some (length h)"
  by (induction hs) auto

lemma widths_computed:
  assumes "\<forall>r \<in> set rows. \<forall>h \<in> set hs. \<exists>v. map_of r h = Some v"
  shows "\<exists>ws. widths_rows rows hs (map_of (map (\<lambda>h. (h, length h)) hs)) = Inr ws
            \<and> (\<forall>h \<in> set hs. ws h = Some (col_width rows h))"
proof -
  let ?ws0 = "map_of (map (\<lambda>h. (h, length h)) hs)"
  have d: "\<forall>h \<in> set hs. \<exists>n. ?ws0 h = Some n" by (simp add: initial_widths)
  from widths_rows_ok[OF d assms] show ?thesis
    by (simp add: initial_widths fold_max_col_width)
qed

lemma line_ok:
  assumes "\<forall>h \<in> set hs. ws h = Some (col_width rows h)"
  shows "line ws hs CHR ''='' w = (Inr (), w\<lparr>stdout := stdout w @ [border_line rows hs]\<rparr>)"
proof -
  have "traverse (\<lambda>h. case subscript ws h of Inl e \<Rightarrow> Inl e
                      | Inr n \<Rightarrow> Inr (replicate (n + 2) CHR ''='')) hs
        = Inr (map (\<lambda>h. replicate (col_width rows h + 2) CHR ''='') hs)"
    using assms by (intro traverse_ok) (simp add: subscript_def)
  then show ?thesis by (simp add: line_def print_def border_line_def)
qed

lemma header_ok:
  assumes "\<forall>h \<in> set hs. ws h = Some (col_width rows h)"
  shows "print_header ws hs w = (Inr (), w\<lparr>stdout := stdout w @ [header_line rows hs]\<rparr>)"
proof -
  have "traverse (\<lambda>h. case subscript ws h of Inl e \<Rightarrow> Inl e | Inr n \<Rightarrow> Inr (ljust n h)) hs
        = Inr (map (\<lambda>h. ljust (col_width rows h) h) hs)"
    using assms by (intro traverse_ok) (simp add: subscript_def)
  then show ?thesis by (simp add: print_header_def print_def header_line_def)
qed

lemma row_ok:
  assumes "\<forall>h \<in> set hs. ws h = Some (col_width rows h)"
    and "\<forall>h \<in> set hs. \<exists>v. map_of r h = Some v"
  shows "print_row ws hs r w = (Inr (), w\<lparr>stdout := stdout w @ [row_line rows hs r]\<rparr>)"
proof -
  have "traverse (\<lambda>h. case subscript (map_of r) h of Inl e \<Rightarrow> Inl e
                      | Inr v \<Rightarrow> (case subscript ws h of Inl e \<Rightarrow> Inl e
                                   | Inr n \<Rightarrow> Inr (ljust n (cell_text v)))) hs
        = Inr (map (\<lambda>h. ljust (col_width rows h) (cell_text (the (map_of r h)))) hs)"
    using assms by (intro traverse_ok) (auto simp: subscript_def)
  then show ?thesis by (simp add: print_row_def print_def row_line_def)
qed

lemma rows_ok:
  assumes "\<forall>h \<in> set hs. ws h = Some (col_width rows h)"
    and "\<forall>r \<in> set rs. \<forall>h \<in> set hs. \<exists>v. map_of r h = Some v"
  shows "print_rows ws hs rs w = (Inr (), w\<lparr>stdout := stdout w @ map (row_line rows hs) rs\<rparr>)"
  using assms(2)
proof (induction rs arbitrary: w)
  case Nil
  then show ?case by (simp add: return_io_def)
next
  case (Cons r rs)
  from Cons.prems have "\<forall>h \<in> set hs. \<exists>v. map_of r h = Some v" by simp
  from row_ok[OF assms(1) this] Cons show ?case
    by (simp add: bind_io_def)
qed

text \<open>
  C6. For a non-empty sequence of records that all have the keys of the first one,
  \<open>print_table\<close> prints exactly the lines of \<open>table_lines\<close>: a border, the header, a
  border, one line per record, a border, where the width of a column is the maximum of
  the length of its header and of the lengths of the string forms of its values, a null
  value counting 0 and giving an empty cell, every cell is padded to that width, and
  every border segment is as long as the width plus 2.
\<close>

theorem print_table_widths:
  assumes "rows \<noteq> []"
    and "\<forall>r \<in> set rows. \<forall>h \<in> set (map fst (hd rows)). h \<in> fst ` set r"
  shows "print_table rows w = (Inr (), w\<lparr>stdout := stdout w @ table_lines rows\<rparr>)
       \<and> (\<forall>h. col_width rows h
                = Max (insert (length h) ((\<lambda>r. cell_len (the (map_of r h))) ` set rows)))
       \<and> cell_len PNone = 0 \<and> cell_text PNone = []"
proof -
  from assms(1) obtain r0 rs where rows: "rows = r0 # rs" by (cases rows) auto
  let ?hs = "map fst r0"
  have hd: "hd rows = r0" by (simp add: rows)
  have keys: "\<forall>r \<in> set rows. \<forall>h \<in> set ?hs. \<exists>v. map_of r h = Some v"
  proof (intro ballI)
    fix r h
    assume "r \<in> set rows" "h \<in> set ?hs"
    with assms(2)[unfolded hd] have "h \<in> fst ` set r" by blast
    then show "\<exists>v. map_of r h = Some v" by (metis domD dom_map_of_conv_image_fst)
  qed
  from widths_computed[OF keys] obtain ws
    where ws: "widths_rows rows ?hs (map_of (map (\<lambda>h. (h, length h)) ?hs)) = Inr ws"
      and cw: "\<forall>h \<in> set ?hs. ws h = Some (col_width rows h)" by blast
  have "print_table rows w = (Inr (), w\<lparr>stdout := stdout w @ table_lines rows\<rparr>)"
    using ws unfolding print_table_def table_lines_def rows
    by (simp add: Let_def bind_io_def line_ok[OF cw] header_ok[OF cw]
        rows_ok[OF cw keys[unfolded rows]] rows del: print_rows.simps widths_rows.simps)
  moreover have "\<forall>h. col_width rows h
                = Max (insert (length h) ((\<lambda>r. cell_len (the (map_of r h))) ` set rows))"
    by (simp add: col_width_def)
  ultimately show ?thesis by (simp add: cell_len_def cell_text_def)
qed


theorem print_table_widths_witness:
  "print_table [listed ada, listed bob] (world_of [] 0)
     = (Inr (), (world_of [] 0)\<lparr>stdout :=
         [''+============+============+===========+=================+=================+'',
          ''| student_id | first_name | last_name | email           | enrollment_date |'',
          ''+============+============+===========+=================+=================+'',
          ''| 1          | Ada        | Lovelace  | ada@example.com |                 |'',
          ''| 2          | Bob        | Stone     | bob@example.com | 2023-09-03      |'',
          ''+============+============+===========+=================+=================+'']\<rparr>)
   \<and> col_width [listed ada, listed bob] ''enrollment_date'' = 15
   \<and> col_width [listed ada, listed bob] ''email'' = 15"
proof -
  have ne: "[listed ada, listed bob] \<noteq> []" by simp
  have keys: "\<forall>r \<in> set [listed ada, listed bob].
                \<forall>h \<in> set (map fst (hd [listed ada, listed bob])). h \<in> fst ` set r"
    by (simp add: listed_def)
  have t: "table_lines [listed ada, listed bob]
     = [''+============+============+===========+=================+=================+'',
          ''| student_id | first_name | last_name | email           | enrollment_date |'',
          ''+============+============+===========+=================+=================+'',
          ''| 1          | Ada        | Lovelace  | ada@example.com |                 |'',
          ''| 2          | Bob        | Stone     | bob@example.com | 2023-09-03      |'',
          ''+============+============+===========+=================+=================+'']"
    by code_simp
  have c1: "col_width [listed ada, listed bob] ''enrollment_date'' = 15" by code_simp
  have c2: "col_width [listed ada, listed bob] ''email'' = 15" by code_simp
  from print_table_widths[OF ne keys, of "world_of [] 0"] t c1 c2 show ?thesis
    by (simp add: world_of_def)
qed

section \<open>The order of the listing\<close>

lemma sql_insert_pk:
  assumes "distinct (map student_id t)" and "list_all (\<lambda>r. student_id r \<le> s) t"
  shows "case sql_insert srv f l e d t s of
           (Inl x, s') \<Rightarrow> s \<le> s'
         | (Inr (a, t'), s') \<Rightarrow>
             distinct (map student_id t') \<and> list_all (\<lambda>r. student_id r \<le> s') t'"
proof -
  from assms(2) have le: "\<forall>r \<in> set t. student_id r \<le> s" by (simp add: list_all_iff)
  from le have le': "\<forall>r \<in> set t. student_id r \<le> s + 1" by force
  from assms(1) le' show ?thesis
    by (auto simp: sql_insert_def list_all_iff
        split: sum.splits option.splits date_reading.splits)
qed

lemma sql_update_pk:
  assumes "distinct (map student_id t)" and "list_all (\<lambda>r. student_id r \<le> s) t"
  shows "case sql_update e i t s of
           (Inl x, s') \<Rightarrow> s \<le> s'
         | (Inr (a, t'), s') \<Rightarrow>
             distinct (map student_id t') \<and> list_all (\<lambda>r. student_id r \<le> s') t'"
proof -
  have m: "map (student_id \<circ> (\<lambda>r. if student_id r = i then r\<lparr>email := e\<rparr> else r)) t
             = map student_id t"
    by (induction t) auto
  from assms show ?thesis
    by (auto simp: sql_update_def list_all_iff m)
qed

lemma sql_delete_pk:
  assumes "distinct (map student_id t)" and "list_all (\<lambda>r. student_id r \<le> s) t"
  shows "case sql_delete i t s of
           (Inl x, s') \<Rightarrow> s \<le> s'
         | (Inr (a, t'), s') \<Rightarrow>
             distinct (map student_id t') \<and> list_all (\<lambda>r. student_id r \<le> s') t'"
  using assms by (auto simp: sql_delete_def list_all_iff distinct_map_filter)

lemma mutation_pk:
  assumes inv: "pk_inv w"
    and stmt: "case stmt (students w) (seq w) of
                 (Inl x, s') \<Rightarrow> seq w \<le> s'
               | (Inr (a, t'), s') \<Rightarrow>
                   distinct (map student_id t') \<and> list_all (\<lambda>r. student_id r \<le> s') t'"
  shows "pk_inv (snd (with_conn (get_conn srv env)
           (with_cursor (bind_io (execute srv ps stmt)
              (\<lambda>a. bind_io conn_commit (\<lambda>_. return_io a)))) w))"
proof (cases rule: get_conn_cases[of srv env w])
  case (fail e k)
  from fail(2) inv show ?thesis by (simp add: with_conn_def pk_inv_def)
next
  case ok
  show ?thesis
  proof (cases "list_ex (\<lambda>p. CHR 0x00 \<in> set p) ps")
    case True
    with mutation_ok[OF ok, of ps stmt] inv show ?thesis
      by (simp add: pk_inv_def connected_def)
  next
    case False
    obtain r s' where r: "stmt (students w) (seq w) = (r, s')"
      by (cases "stmt (students w) (seq w)")
    show ?thesis
    proof (cases r)
      case (Inl x)
      with r stmt have "seq w \<le> s'" by simp
      with inv have "list_all (\<lambda>r. student_id r \<le> s') (students w)"
        by (auto simp: pk_inv_def list_all_iff)
      with Inl r False mutation_ok[OF ok, of ps stmt] inv show ?thesis
        by (simp add: pk_inv_def connected_def)
    next
      case (Inr p)
      obtain a t' where p: "p = (a, t')" by (cases p)
      with Inr r stmt False mutation_ok[OF ok, of ps stmt] show ?thesis
        by (simp add: pk_inv_def connected_def)
    qed
  qed
qed

lemma reachable_pk: "reachable w \<Longrightarrow> pk_inv w"
proof (induction rule: reachable.induct)
  case (initial w)
  then show ?case .
next
  case (add w srv env f l e d)
  then have inv: "pk_inv w" by simp
  show ?case unfolding addStudent_def
    by (rule mutation_pk[OF inv]) (use inv in \<open>simp add: sql_insert_pk pk_inv_def\<close>)
next
  case (update w srv env i e)
  then have inv: "pk_inv w" by simp
  show ?case unfolding updateStudentEmail_def
    by (rule mutation_pk[OF inv]) (use inv in \<open>simp add: sql_update_pk pk_inv_def\<close>)
next
  case (delete w srv env i)
  then have inv: "pk_inv w" by simp
  show ?case unfolding deleteStudent_def
    by (rule mutation_pk[OF inv]) (use inv in \<open>simp add: sql_delete_pk pk_inv_def\<close>)
next
  case (list w srv env)
  then have inv: "pk_inv w" by simp
  show ?case
  proof (cases rule: get_conn_cases[of srv env w])
    case (fail e k)
    from fail(2) inv show ?thesis by (simp add: getAllStudents_def with_conn_def pk_inv_def)
  next
    case ok
    from select_ok[OF ok] inv show ?thesis
      by (cases "traverse fetch_row (sort_key student_id (students w))")
         (simp_all add: pk_inv_def connected_def)
  qed
next
  case (render w rows)
  then show ?case by (simp add: pk_inv_def print_table_frame)
qed

lemma strict_sorted_sort_key:
  fixes f :: "'a \<Rightarrow> int"
  assumes "distinct (map f xs)"
  shows "sorted_wrt (<) (map f (sort_key f xs))"
proof -
  have "mset (map f (sort_key f xs)) = mset (map f xs)" by simp
  then have "distinct (map f (sort_key f xs)) = distinct (map f xs)"
    by (rule mset_eq_imp_distinct_iff)
  with assms show ?thesis by (simp add: strict_sorted_iff)
qed

text \<open>
  C2, as amended. In every reachable store, whatever the storage order of its records and
  the operations that led to it, \<open>getAllStudents\<close> (its connection acquired) returns all
  the records of the table, each once, in strictly ascending order of \<open>student_id\<close>, the
  id of each record under the key \<open>student_id\<close> of its dict, when every stored enrollment
  date is one the driver can show (a day of the years 1 to 9999, or an infinite date).
  When some stored date is not, \<open>getAllStudents\<close> raises \<open>ValueError\<close> and returns no
  record.
\<close>

theorem getAllStudents_sorted:
  assumes "reachable w" and "fst (get_conn srv env w) = Inr ()"
  shows "(list_all showable (students w) \<longrightarrow>
           (\<exists>sts. fst (getAllStudents srv env w) = Inr (map listed sts)
                  \<and> map (\<lambda>row. map_of row ''student_id'') (map listed sts)
                      = map (\<lambda>r. Some (PInt (student_id r))) sts
                  \<and> mset sts = mset (students w)
                  \<and> sorted_wrt (<) (map student_id sts)))
       \<and> (\<not> list_all showable (students w) \<longrightarrow>
           (\<exists>m. fst (getAllStudents srv env w) = Inl (ValueError m)))"
proof -
  from assms(1) have "pk_inv w" by (rule reachable_pk)
  then have d: "distinct (map student_id (students w))" by (simp add: pk_inv_def)
  from assms(2) have ok: "get_conn srv env w = (Inr (), connected w)" by (rule get_conn_Inr)
  have good: "\<exists>sts. fst (getAllStudents srv env w) = Inr (map listed sts)
                  \<and> map (\<lambda>row. map_of row ''student_id'') (map listed sts)
                      = map (\<lambda>r. Some (PInt (student_id r))) sts
                  \<and> mset sts = mset (students w)
                  \<and> sorted_wrt (<) (map student_id sts)"
    if sh: "list_all showable (students w)"
  proof -
    from listing_ok[OF ok sh]
    have "fst (getAllStudents srv env w) = Inr (map listed (sort_key student_id (students w)))"
      by simp
    moreover have "map (\<lambda>row. map_of row ''student_id'')
                     (map listed (sort_key student_id (students w)))
                   = map (\<lambda>r. Some (PInt (student_id r))) (sort_key student_id (students w))"
      by (simp add: listed_def)
    moreover have "mset (sort_key student_id (students w)) = mset (students w)" by simp
    moreover from d have "sorted_wrt (<) (map student_id (sort_key student_id (students w)))"
      by (rule strict_sorted_sort_key)
    ultimately show ?thesis by blast
  qed
  have bad: "\<exists>m. fst (getAllStudents srv env w) = Inl (ValueError m)"
    if "\<not> list_all showable (students w)"
    using listing_fail[OF ok that] by auto
  from good bad show ?thesis by blast
qed

theorem getAllStudents_sorted_witness:
  "fst (getAllStudents example_server example_env
         (snd (addStudent example_server example_env (Some ''Eve'') (Some ''Moss'')
                 (Some ''eve@example.com'') None (world_of [bob, ada] 2))))
     = Inr [[(''student_id'', PInt 1), (''first_name'', PStr ''Ada''),
             (''last_name'', PStr ''Lovelace''), (''email'', PStr ''ada@example.com''),
             (''enrollment_date'', PNone)],
            [(''student_id'', PInt 2), (''first_name'', PStr ''Bob''),
             (''last_name'', PStr ''Stone''), (''email'', PStr ''bob@example.com''),
             (''enrollment_date'', PDate \<lparr>year = 2023, month = 9, day = 3\<rparr>)],
            [(''student_id'', PInt 3), (''first_name'', PStr ''Eve''),
             (''last_name'', PStr ''Moss''), (''email'', PStr ''eve@example.com''),
             (''enrollment_date'', PNone)]]
   \<and> (\<exists>sts. fst (getAllStudents example_server example_env
                 (snd (addStudent example_server example_env (Some ''Eve'') (Some ''Moss'')
                         (Some ''eve@example.com'') None (world_of [bob, ada] 2))))
               = Inr (map listed sts)
             \<and> map (\<lambda>row. map_of row ''student_id'') (map listed sts)
                 = map (\<lambda>r. Some (PInt (student_id r))) sts
             \<and> sorted_wrt (<) (map student_id sts))
   \<and> (\<exists>m. fst (getAllStudents example_server example_env (world_of [ada, eve] 3))
            = Inl (ValueError m))"
proof -
  let ?w = "snd (addStudent example_server example_env (Some ''Eve'') (Some ''Moss'')
                   (Some ''eve@example.com'') None (world_of [bob, ada] 2))"
  have "pk_inv (world_of [bob, ada] 2)"
    by (simp add: pk_inv_def world_of_def ada_def bob_def)
  then have "reachable (world_of [bob, ada] 2)" by (rule reachable.initial)
  then have r: "reachable ?w" by (rule reachable.add)
  have sh: "list_all showable (students ?w)" by code_simp
  have v: "fst (getAllStudents example_server example_env ?w)
     = Inr [[(''student_id'', PInt 1), (''first_name'', PStr ''Ada''),
             (''last_name'', PStr ''Lovelace''), (''email'', PStr ''ada@example.com''),
             (''enrollment_date'', PNone)],
            [(''student_id'', PInt 2), (''first_name'', PStr ''Bob''),
             (''last_name'', PStr ''Stone''), (''email'', PStr ''bob@example.com''),
             (''enrollment_date'', PDate \<lparr>year = 2023, month = 9, day = 3\<rparr>)],
            [(''student_id'', PInt 3), (''first_name'', PStr ''Eve''),
             (''last_name'', PStr ''Moss''), (''email'', PStr ''eve@example.com''),
             (''enrollment_date'', PNone)]]"
    by code_simp
  have "pk_inv (world_of [ada, eve] 3)"
    by (simp add: pk_inv_def world_of_def ada_def eve_def)
  then have r2: "reachable (world_of [ada, eve] 3)" by (rule reachable.initial)
  have nsh: "\<not> list_all showable (students (world_of [ada, eve] 3))" by code_simp
  from getAllStudents_sorted[OF r example_conn] sh
  have 1: "\<exists>sts. fst (getAllStudents example_server example_env ?w) = Inr (map listed sts)
             \<and> map (\<lambda>row. map_of row ''student_id'') (map listed sts)
                 = map (\<lambda>r. Some (PInt (student_id r))) sts
             \<and> sorted_wrt (<) (map student_id sts)"
    by blast
  from getAllStudents_sorted[OF r2 example_conn] nsh
  have 2: "\<exists>m. fst (getAllStudents example_server example_env (world_of [ada, eve] 3))
            = Inl (ValueError m)"
    by blast
  from v 1 2 show ?thesis by blast
qed

text \<open>
  The claim as stated fails: the table holds a record whose enrollment date is in the
  year 10000, and \<open>getAllStudents\<close>, its connection acquired, raises instead of returning
  the records; the same after an insert of this program on a server that reads a year of
  five digits has stored such a date.
\<close>

theorem getAllStudents_year_10000_counterexample:
  "fst (get_conn example_server example_env (world_of [ada, eve] 3)) = Inr ()
   \<and> fst (getAllStudents example_server example_env (world_of [ada, eve] 3))
       = Inl (ValueError ''year 10000 is out of range'')
   \<and> fst (addStudent wide_server example_env (Some ''Eve'') (Some ''Far'')
            (Some ''eve@example.com'') (Some ''10000-01-01'') (world_of [ada] 1)) = Inr 2
   \<and> fst (getAllStudents wide_server example_env
            (snd (addStudent wide_server example_env (Some ''Eve'') (Some ''Far'')
                    (Some ''eve@example.com'') (Some ''10000-01-01'') (world_of [ada] 1))))
       = Inl (ValueError ''year 10000 is out of range'')"
proof -
  let ?r = "\<lparr>student_id = 2, first_name = ''Eve'', last_name = ''Far'',
             email = ''eve@example.com'', enrollment_date = Some (Day 10000 1 1)\<rparr>"
  let ?w = "snd (addStudent wide_server example_env (Some ''Eve'') (Some ''Far'')
                   (Some ''eve@example.com'') (Some ''10000-01-01'') (world_of [ada] 1))"
  have c1: "get_conn example_server example_env (world_of [ada, eve] 3)
              = (Inr (), connected (world_of [ada, eve] 3))"
    using example_conn by (rule get_conn_Inr)
  have t1: "traverse fetch_row (sort_key student_id (students (world_of [ada, eve] 3)))
              = Inl (ValueError ''year 10000 is out of range'')"
    by (simp add: world_of_def ada_def eve_def fetch_row_def cast_column_def cast_date_def
        str_int_def digits.simps)
  have 1: "fst (getAllStudents example_server example_env (world_of [ada, eve] 3))
             = Inl (ValueError ''year 10000 is out of range'')"
    by (simp add: select_ok[OF c1] t1)
  have c2: "get_conn wide_server example_env (world_of [ada] 1)
              = (Inr (), connected (world_of [ada] 1))"
    using wide_conn by (rule get_conn_Inr)
  have rd: "read_date wide_server ''10000-01-01'' = Reads (Day 10000 1 1)"
    by (simp add: read_date_def ymd_form_def wide_server_def)
  have a: "addStudent wide_server example_env (Some ''Eve'') (Some ''Far'')
             (Some ''eve@example.com'') (Some ''10000-01-01'') (world_of [ada] 1)
           = (Inr 2, (connected (world_of [ada] 1))\<lparr>students := [ada, ?r], seq := 2\<rparr>)"
    unfolding add_ok[OF c2]
    by (simp add: bound_texts_def sql_insert_def rd max_id_def world_of_def ada_def)
  have c3: "get_conn wide_server example_env ?w = (Inr (), connected ?w)"
    using wide_conn by (rule get_conn_Inr)
  have t3: "traverse fetch_row (sort_key student_id (students ?w))
              = Inl (ValueError ''year 10000 is out of range'')"
    unfolding a
    by (simp add: ada_def fetch_row_def cast_column_def cast_date_def str_int_def
        digits.simps)
  have 3: "fst (getAllStudents wide_server example_env ?w)
             = Inl (ValueError ''year 10000 is out of range'')"
    by (simp add: select_ok[OF c3] t3)
  from example_conn 1 a 3 show ?thesis by simp
qed

section \<open>The dispatcher\<close>

lemma bind_first_fail:
  "fst (m w) = Inl e \<Longrightarrow> bind_io m f w = (Inl e, snd (m w))"
  by (cases "m w") (simp add: bind_io_def)

lemma bind_first_ok:
  "fst (m w) = Inr a \<Longrightarrow> bind_io m f w = f a (snd (m w))"
  by (cases "m w") (simp add: bind_io_def)

lemma op_conn_fail:
  assumes "fst (get_conn srv env w) = Inl e"
  shows "getAllStudents srv env w = (Inl e, snd (get_conn srv env w))"
    and "addStudent srv env (Some f) (Some l) (Some em) dt w = (Inl e, snd (get_conn srv env w))"
    and "updateStudentEmail srv env sid em w = (Inl e, snd (get_conn srv env w))"
    and "deleteStudent srv env sid w = (Inl e, snd (get_conn srv env w))"
proof -
  from assms have g: "get_conn srv env w = (Inl e, snd (get_conn srv env w))"
    by (metis prod.collapse)
  show "getAllStudents srv env w = (Inl e, snd (get_conn srv env w))"
    unfolding getAllStudents_def using g by (rule mutation_fail)
  show "addStudent srv env (Some f) (Some l) (Some em) dt w = (Inl e, snd (get_conn srv env w))"
    unfolding addStudent_def using g by (rule mutation_fail)
  show "updateStudentEmail srv env sid em w = (Inl e, snd (get_conn srv env w))"
    unfolding updateStudentEmail_def using g by (rule mutation_fail)
  show "deleteStudent srv env sid w = (Inl e, snd (get_conn srv env w))"
    unfolding deleteStudent_def using g by (rule mutation_fail)
qed

lemma dispatch_conn_fail:
  assumes "fst (get_conn srv env w) = Inl e"
  shows "dispatch srv env c w = (Inl e, snd (get_conn srv env w))"
  by (cases c) (simp_all add: bind_io_def op_conn_fail[OF assms])

lemma get_conn_stderr: "stderr (snd (get_conn srv env w)) = stderr w"
  by (cases rule: get_conn_cases[of srv env w]) (simp_all add: connected_def)

lemma with_conn_connects:
  assumes "\<And>w1. connects (snd (body w1)) = connects w1"
  shows "connects (snd (with_conn (get_conn srv env) body w)) \<le> connects w + 1"
proof (cases rule: get_conn_cases[of srv env w])
  case (fail e k)
  then show ?thesis by (simp add: with_conn_def)
next
  case ok
  obtain r w2 where b: "body (connected w) = (r, w2)" by (cases "body (connected w)")
  with assms[of "connected w"] have "connects w2 = connects w + 1" by (simp add: connected_def)
  with ok b show ?thesis
    by (cases r) (simp_all add: with_conn_def commit_def rollback_def split: option.splits)
qed

lemma cursor_body_connects:
  "connects (snd (with_cursor (bind_io (execute srv ps stmt) k) w1)) = connects w1"
  if "\<And>a w2. connects (snd (k a w2)) = connects w2"
proof -
  let ?w = "w1\<lparr>open_cursors := open_cursors w1 + 1\<rparr>"
  obtain r w2 where e: "execute srv ps stmt ?w = (r, w2)" by (cases "execute srv ps stmt ?w")
  then have c: "connects w2 = connects w1"
    by (auto simp: execute_def Let_def split: sum.splits prod.splits if_splits)
  show ?thesis
  proof (cases r)
    case (Inl x)
    with e c show ?thesis by (simp add: with_cursor_def bind_io_def)
  next
    case (Inr a)
    obtain r' w3 where k: "k a w2 = (r', w3)" by (cases "k a w2")
    with that[of a w2] c have "connects w3 = connects w1" by simp
    with e k Inr show ?thesis by (simp add: with_cursor_def bind_io_def)
  qed
qed

lemma op_connects:
  "connects (snd (getAllStudents srv env w)) \<le> connects w + 1"
  "connects (snd (addStudent srv env (Some f) (Some l) (Some em) dt w)) \<le> connects w + 1"
  "connects (snd (updateStudentEmail srv env sid em w)) \<le> connects w + 1"
  "connects (snd (deleteStudent srv env sid w)) \<le> connects w + 1"
  unfolding getAllStudents_def addStudent_def updateStudentEmail_def deleteStudent_def
  by (rule with_conn_connects, rule cursor_body_connects,
      simp add: bind_io_def conn_commit_def return_io_def commit_def fetchall_def
        split: option.splits sum.splits)+

lemma list_render_connects:
  "connects (snd (bind_io (getAllStudents srv env) print_table w)) \<le> connects w + 1"
proof (cases "fst (getAllStudents srv env w)")
  case (Inl e)
  then show ?thesis using op_connects(1)[of srv env w] by (simp add: bind_first_fail)
next
  case (Inr rows)
  then show ?thesis using op_connects(1)[of srv env w]
    by (simp add: bind_first_ok print_table_frame)
qed

lemma after_mutation_connects:
  assumes "connects (snd (m w)) \<le> connects w + 1"
  shows "connects (snd (bind_io m (\<lambda>a. bind_io (print (g a))
           (\<lambda>_. bind_io (getAllStudents srv env) print_table)) w)) \<le> connects w + 2"
proof (cases "fst (m w)")
  case (Inl e)
  with assms show ?thesis by (simp add: bind_first_fail)
next
  case (Inr a)
  let ?w1 = "(snd (m w))\<lparr>stdout := stdout (snd (m w)) @ [g a]\<rparr>"
  have "bind_io m (\<lambda>a. bind_io (print (g a)) (\<lambda>_. bind_io (getAllStudents srv env) print_table)) w
        = bind_io (getAllStudents srv env) print_table ?w1"
    using Inr by (simp add: bind_first_ok) (simp add: bind_io_def print_def)
  with list_render_connects[of srv env ?w1] assms show ?thesis by simp
qed

lemma dispatch_connects:
  "connects (snd (dispatch srv env c w)) \<le> connects w + (if c = GetAll then 1 else 2)"
proof (cases c)
  case GetAll
  then show ?thesis using list_render_connects[of srv env w] by simp
next
  case (Add f l em dt)
  then show ?thesis
    using after_mutation_connects[where m="addStudent srv env (Some f) (Some l) (Some em) dt" and w=w
        and g="\<lambda>i. ''Inserted student_id='' @ str_int i" and srv=srv and env=env,
        OF op_connects(2)]
    by simp
next
  case (UpdateEmail sid em)
  then show ?thesis
    using after_mutation_connects[where m="updateStudentEmail srv env sid em" and w=w
        and g="\<lambda>n. ''Rows updated: '' @ str_int (int n)" and srv=srv and env=env,
        OF op_connects(3)]
    by simp
next
  case (Delete sid)
  then show ?thesis
    using after_mutation_connects[where m="deleteStudent srv env sid" and w=w
        and g="\<lambda>n. ''Rows deleted: '' @ str_int (int n)" and srv=srv and env=env,
        OF op_connects(4)]
    by simp
qed

lemma main_connects:
  "connects (snd (main srv env c w)) \<le> connects w + (if c = GetAll then 1 else 2)"
proof -
  have "connects (snd (main srv env c w)) = connects (snd (dispatch srv env c w))"
    by (cases "dispatch srv env c w") (auto simp: main_def split: sum.splits)
  with dispatch_connects[of srv env c w] show ?thesis by simp
qed

text \<open>
  C9. Whatever error the run of a subcommand raises, \<open>main\<close> exits with status 1 and the
  world it leaves is the world the failing operation left, with one line added to the
  error stream: \<open>ERROR: \<close> followed by the message of the error. So nothing runs
  after the failure: no further operation, no second attempt. This holds for an error of
  the connection acquisition under any subcommand, for an error of the first operation of
  each subcommand, and for an error of the listing that follows a successful insert,
  update or delete. In every run the server is contacted at most once for each operation
  the subcommand calls: at most once for \<open>get-all\<close>, at most twice for the others.
\<close>

theorem main_catches_errors:
  "(fst (get_conn srv env w) = Inl e \<longrightarrow>
      main srv env c w
        = (1, (snd (get_conn srv env w))\<lparr>stderr := stderr w @ [''ERROR: '' @ str_exn e]\<rparr>))
 \<and> (fst (getAllStudents srv env w) = Inl e \<longrightarrow>
      main srv env GetAll w
        = (1, (snd (getAllStudents srv env w))
                \<lparr>stderr := stderr (snd (getAllStudents srv env w)) @ [''ERROR: '' @ str_exn e]\<rparr>))
 \<and> (fst (addStudent srv env (Some f) (Some l) (Some em) dt w) = Inl e \<longrightarrow>
      main srv env (Add f l em dt) w
        = (1, (snd (addStudent srv env (Some f) (Some l) (Some em) dt w))
                \<lparr>stderr := stderr (snd (addStudent srv env (Some f) (Some l) (Some em) dt w))
                             @ [''ERROR: '' @ str_exn e]\<rparr>))
 \<and> (fst (updateStudentEmail srv env sid em w) = Inl e \<longrightarrow>
      main srv env (UpdateEmail sid em) w
        = (1, (snd (updateStudentEmail srv env sid em w))
                \<lparr>stderr := stderr (snd (updateStudentEmail srv env sid em w))
                             @ [''ERROR: '' @ str_exn e]\<rparr>))
 \<and> (fst (deleteStudent srv env sid w) = Inl e \<longrightarrow>
      main srv env (Delete sid) w
        = (1, (snd (deleteStudent srv env sid w))
                \<lparr>stderr := stderr (snd (deleteStudent srv env sid w))
                             @ [''ERROR: '' @ str_exn e]\<rparr>))
 \<and> (fst (addStudent srv env (Some f) (Some l) (Some em) dt w) = Inr i
      \<and> fst (getAllStudents srv env
               (snd (print (''Inserted student_id='' @ str_int i)
                      (snd (addStudent srv env (Some f) (Some l) (Some em) dt w))))) = Inl e \<longrightarrow>
      main srv env (Add f l em dt) w
        = (1, (snd (getAllStudents srv env
                 (snd (print (''Inserted student_id='' @ str_int i)
                        (snd (addStudent srv env (Some f) (Some l) (Some em) dt w))))))
                \<lparr>stderr := stderr (snd (getAllStudents srv env
                     (snd (print (''Inserted student_id='' @ str_int i)
                            (snd (addStudent srv env (Some f) (Some l) (Some em) dt w))))))
                             @ [''ERROR: '' @ str_exn e]\<rparr>))
 \<and> (fst (updateStudentEmail srv env sid em w) = Inr n
      \<and> fst (getAllStudents srv env
               (snd (print (''Rows updated: '' @ str_int (int n))
                      (snd (updateStudentEmail srv env sid em w))))) = Inl e \<longrightarrow>
      main srv env (UpdateEmail sid em) w
        = (1, (snd (getAllStudents srv env
                 (snd (print (''Rows updated: '' @ str_int (int n))
                        (snd (updateStudentEmail srv env sid em w))))))
                \<lparr>stderr := stderr (snd (getAllStudents srv env
                     (snd (print (''Rows updated: '' @ str_int (int n))
                            (snd (updateStudentEmail srv env sid em w))))))
                             @ [''ERROR: '' @ str_exn e]\<rparr>))
 \<and> (fst (deleteStudent srv env sid w) = Inr n
      \<and> fst (getAllStudents srv env
               (snd (print (''Rows deleted: '' @ str_int (int n))
                      (snd (deleteStudent srv env sid w))))) = Inl e \<longrightarrow>
      main srv env (Delete sid) w
        = (1, (snd (getAllStudents srv env
                 (snd (print (''Rows deleted: '' @ str_int (int n))
                        (snd (deleteStudent srv env sid w))))))
                \<lparr>stderr := stderr (snd (getAllStudents srv env
                     (snd (print (''Rows deleted: '' @ str_int (int n))
                            (snd (deleteStudent srv env sid w))))))
                             @ [''ERROR: '' @ str_exn e]\<rparr>))
 \<and> connects (snd (main srv env c w)) \<le> connects w + (if c = GetAll then 1 else 2)"
proof (intro conjI impI)
  assume a: "fst (get_conn srv env w) = Inl e"
  from dispatch_conn_fail[OF a, of c] show "main srv env c w
        = (1, (snd (get_conn srv env w))\<lparr>stderr := stderr w @ [''ERROR: '' @ str_exn e]\<rparr>)"
    by (simp add: main_def get_conn_stderr)
next
  assume a: "fst (getAllStudents srv env w) = Inl e"
  then have "dispatch srv env GetAll w = (Inl e, snd (getAllStudents srv env w))"
    by (simp add: bind_first_fail)
  then show "main srv env GetAll w
        = (1, (snd (getAllStudents srv env w))
                \<lparr>stderr := stderr (snd (getAllStudents srv env w)) @ [''ERROR: '' @ str_exn e]\<rparr>)"
    by (simp add: main_def)
next
  assume a: "fst (addStudent srv env (Some f) (Some l) (Some em) dt w) = Inl e"
  then have "dispatch srv env (Add f l em dt) w = (Inl e, snd (addStudent srv env (Some f) (Some l) (Some em) dt w))"
    by (simp add: bind_first_fail)
  then show "main srv env (Add f l em dt) w
        = (1, (snd (addStudent srv env (Some f) (Some l) (Some em) dt w))
                \<lparr>stderr := stderr (snd (addStudent srv env (Some f) (Some l) (Some em) dt w))
                             @ [''ERROR: '' @ str_exn e]\<rparr>)"
    by (simp add: main_def)
next
  assume a: "fst (updateStudentEmail srv env sid em w) = Inl e"
  then have "dispatch srv env (UpdateEmail sid em) w = (Inl e, snd (updateStudentEmail srv env sid em w))"
    by (simp add: bind_first_fail)
  then show "main srv env (UpdateEmail sid em) w
        = (1, (snd (updateStudentEmail srv env sid em w))
                \<lparr>stderr := stderr (snd (updateStudentEmail srv env sid em w))
                             @ [''ERROR: '' @ str_exn e]\<rparr>)"
    by (simp add: main_def)
next
  assume a: "fst (deleteStudent srv env sid w) = Inl e"
  then have "dispatch srv env (Delete sid) w = (Inl e, snd (deleteStudent srv env sid w))"
    by (simp add: bind_first_fail)
  then show "main srv env (Delete sid) w
        = (1, (snd (deleteStudent srv env sid w))
                \<lparr>stderr := stderr (snd (deleteStudent srv env sid w))
                             @ [''ERROR: '' @ str_exn e]\<rparr>)"
    by (simp add: main_def)
next
  let ?w1 = "snd (print (''Inserted student_id='' @ str_int i) (snd (addStudent srv env (Some f) (Some l) (Some em) dt w)))"
  assume a: "fst (addStudent srv env (Some f) (Some l) (Some em) dt w) = Inr i
      \<and> fst (getAllStudents srv env ?w1) = Inl e"
  then have "dispatch srv env (Add f l em dt) w = (Inl e, snd (getAllStudents srv env ?w1))"
    by (simp add: bind_first_ok bind_first_fail print_def)
  then show "main srv env (Add f l em dt) w
        = (1, (snd (getAllStudents srv env ?w1))
                \<lparr>stderr := stderr (snd (getAllStudents srv env ?w1)) @ [''ERROR: '' @ str_exn e]\<rparr>)"
    by (simp add: main_def)
next
  let ?w1 = "snd (print (''Rows updated: '' @ str_int (int n)) (snd (updateStudentEmail srv env sid em w)))"
  assume a: "fst (updateStudentEmail srv env sid em w) = Inr n
      \<and> fst (getAllStudents srv env ?w1) = Inl e"
  then have "dispatch srv env (UpdateEmail sid em) w = (Inl e, snd (getAllStudents srv env ?w1))"
    by (simp add: bind_first_ok bind_first_fail print_def)
  then show "main srv env (UpdateEmail sid em) w
        = (1, (snd (getAllStudents srv env ?w1))
                \<lparr>stderr := stderr (snd (getAllStudents srv env ?w1)) @ [''ERROR: '' @ str_exn e]\<rparr>)"
    by (simp add: main_def)
next
  let ?w1 = "snd (print (''Rows deleted: '' @ str_int (int n)) (snd (deleteStudent srv env sid w)))"
  assume a: "fst (deleteStudent srv env sid w) = Inr n
      \<and> fst (getAllStudents srv env ?w1) = Inl e"
  then have "dispatch srv env (Delete sid) w = (Inl e, snd (getAllStudents srv env ?w1))"
    by (simp add: bind_first_ok bind_first_fail print_def)
  then show "main srv env (Delete sid) w
        = (1, (snd (getAllStudents srv env ?w1))
                \<lparr>stderr := stderr (snd (getAllStudents srv env ?w1)) @ [''ERROR: '' @ str_exn e]\<rparr>)"
    by (simp add: main_def)
next
  show "connects (snd (main srv env c w)) \<le> connects w + (if c = GetAll then 1 else 2)"
    by (rule main_connects)
qed


theorem main_catches_errors_witness:
  "fst (main example_server Map.empty (Delete 1) (world_of [ada, bob] 2)) = 1 \<and> stderr (snd (main example_server Map.empty (Delete 1) (world_of [ada, bob] 2))) = [''ERROR: Missing env vars: PGHOST, PGPORT, PGUSER, PGPASSWORD, PGDATABASE. Set them in your environment or app/.env'']
 \<and> fst (main example_server (example_env(''PGPORT'' \<mapsto> ''5433'')) (GetAll) (world_of [ada, bob] 2)) = 1 \<and> stderr (snd (main example_server (example_env(''PGPORT'' \<mapsto> ''5433'')) (GetAll) (world_of [ada, bob] 2))) = [''ERROR: connection refused'']
 \<and> fst (main example_server example_env (Add ''Eve'' ''Moss'' ''eve@example.com'' (Some ''not-a-date'')) (world_of [ada, bob] 2)) = 1 \<and> stderr (snd (main example_server example_env (Add ''Eve'' ''Moss'' ''eve@example.com'' (Some ''not-a-date'')) (world_of [ada, bob] 2))) = [''ERROR: invalid input syntax for type date'']
 \<and> fst (main example_server example_env (UpdateEmail 1 ''bob@example.com'') (world_of [ada, bob] 2)) = 1 \<and> stderr (snd (main example_server example_env (UpdateEmail 1 ''bob@example.com'') (world_of [ada, bob] 2))) = [''ERROR: duplicate key value violates unique constraint'']
 \<and> fst (main example_server (example_env(''PGPORT'' \<mapsto> ''abc'')) (Delete 1) (world_of [ada, bob] 2)) = 1 \<and> stderr (snd (main example_server (example_env(''PGPORT'' \<mapsto> ''abc'')) (Delete 1) (world_of [ada, bob] 2))) = [''ERROR: invalid literal for int() with base 10: '' @ [CHR 0x27] @ ''abc'' @ [CHR 0x27]]
 \<and> fst (main flaky_server example_env (Add ''Eve'' ''Moss'' ''eve@example.com'' None) (world_of [ada, bob] 2)) = 1 \<and> stderr (snd (main flaky_server example_env (Add ''Eve'' ''Moss'' ''eve@example.com'' None) (world_of [ada, bob] 2))) = [''ERROR: connection refused'']
 \<and> fst (main flaky_server example_env (UpdateEmail 1 ''new@example.com'') (world_of [ada, bob] 2)) = 1 \<and> stderr (snd (main flaky_server example_env (UpdateEmail 1 ''new@example.com'') (world_of [ada, bob] 2))) = [''ERROR: connection refused'']
 \<and> fst (main flaky_server example_env (Delete 2) (world_of [ada, bob] 2)) = 1 \<and> stderr (snd (main flaky_server example_env (Delete 2) (world_of [ada, bob] 2))) = [''ERROR: connection refused'']"
proof -
  have h1: "fst (get_conn example_server Map.empty (world_of [ada, bob] 2)) = Inl (RuntimeError (missing_message (missing Map.empty)))"
    by code_simp
  have s1: "stderr (snd (get_conn example_server Map.empty (world_of [ada, bob] 2))) = []"
    by code_simp
  have m1: "str_exn (RuntimeError (missing_message (missing Map.empty))) = ''Missing env vars: PGHOST, PGPORT, PGUSER, PGPASSWORD, PGDATABASE. Set them in your environment or app/.env''"
    by code_simp
  from main_catches_errors[where srv="example_server" and env="Map.empty" and w="world_of [ada, bob] 2" and e="RuntimeError (missing_message (missing Map.empty))" and c="Delete 1" and f="[]" and l="[]" and em="[]" and dt="None" and sid="0" and i="0" and n="0"] h1 s1 m1
  have r1: "fst (main example_server Map.empty (Delete 1) (world_of [ada, bob] 2)) = 1 \<and> stderr (snd (main example_server Map.empty (Delete 1) (world_of [ada, bob] 2))) = [''ERROR: Missing env vars: PGHOST, PGPORT, PGUSER, PGPASSWORD, PGDATABASE. Set them in your environment or app/.env'']"
    by (simp add: world_of_def)
  have h2: "fst (getAllStudents example_server (example_env(''PGPORT'' \<mapsto> ''5433'')) (world_of [ada, bob] 2)) = Inl (OperationalError ''connection refused'')"
    by code_simp
  have s2: "stderr (snd (getAllStudents example_server (example_env(''PGPORT'' \<mapsto> ''5433'')) (world_of [ada, bob] 2))) = []"
    by code_simp
  have m2: "str_exn (OperationalError ''connection refused'') = ''connection refused''"
    by code_simp
  from main_catches_errors[where srv="example_server" and env="example_env(''PGPORT'' \<mapsto> ''5433'')" and w="world_of [ada, bob] 2" and e="OperationalError ''connection refused''" and c="GetAll" and f="[]" and l="[]" and em="[]" and dt="None" and sid="0" and i="0" and n="0"] h2 s2 m2
  have r2: "fst (main example_server (example_env(''PGPORT'' \<mapsto> ''5433'')) (GetAll) (world_of [ada, bob] 2)) = 1 \<and> stderr (snd (main example_server (example_env(''PGPORT'' \<mapsto> ''5433'')) (GetAll) (world_of [ada, bob] 2))) = [''ERROR: connection refused'']"
    by (simp add: world_of_def)
  have h3: "fst (addStudent example_server example_env (Some ''Eve'') (Some ''Moss'') (Some ''eve@example.com'') (Some ''not-a-date'') (world_of [ada, bob] 2)) = Inl (InvalidDatetimeFormat ''invalid input syntax for type date'')"
    by code_simp
  have s3: "stderr (snd (addStudent example_server example_env (Some ''Eve'') (Some ''Moss'') (Some ''eve@example.com'') (Some ''not-a-date'') (world_of [ada, bob] 2))) = []"
    by code_simp
  have m3: "str_exn (InvalidDatetimeFormat ''invalid input syntax for type date'') = ''invalid input syntax for type date''"
    by code_simp
  from main_catches_errors[where srv="example_server" and env="example_env" and w="world_of [ada, bob] 2" and e="InvalidDatetimeFormat ''invalid input syntax for type date''" and c="GetAll" and f="''Eve''" and l="''Moss''" and em="''eve@example.com''" and dt="Some ''not-a-date''" and sid="0" and i="0" and n="0"] h3 s3 m3
  have r3: "fst (main example_server example_env (Add ''Eve'' ''Moss'' ''eve@example.com'' (Some ''not-a-date'')) (world_of [ada, bob] 2)) = 1 \<and> stderr (snd (main example_server example_env (Add ''Eve'' ''Moss'' ''eve@example.com'' (Some ''not-a-date'')) (world_of [ada, bob] 2))) = [''ERROR: invalid input syntax for type date'']"
    by (simp add: world_of_def)
  have h4: "fst (updateStudentEmail example_server example_env 1 ''bob@example.com'' (world_of [ada, bob] 2)) = Inl (UniqueViolation ''duplicate key value violates unique constraint'')"
    by code_simp
  have s4: "stderr (snd (updateStudentEmail example_server example_env 1 ''bob@example.com'' (world_of [ada, bob] 2))) = []"
    by code_simp
  have m4: "str_exn (UniqueViolation ''duplicate key value violates unique constraint'') = ''duplicate key value violates unique constraint''"
    by code_simp
  from main_catches_errors[where srv="example_server" and env="example_env" and w="world_of [ada, bob] 2" and e="UniqueViolation ''duplicate key value violates unique constraint''" and c="GetAll" and f="[]" and l="[]" and em="''bob@example.com''" and dt="None" and sid="1" and i="0" and n="0"] h4 s4 m4
  have r4: "fst (main example_server example_env (UpdateEmail 1 ''bob@example.com'') (world_of [ada, bob] 2)) = 1 \<and> stderr (snd (main example_server example_env (UpdateEmail 1 ''bob@example.com'') (world_of [ada, bob] 2))) = [''ERROR: duplicate key value violates unique constraint'']"
    by (simp add: world_of_def)
  have h5: "fst (deleteStudent example_server (example_env(''PGPORT'' \<mapsto> ''abc'')) 1 (world_of [ada, bob] 2)) = Inl (ValueError (''invalid literal for int() with base 10: '' @ py_repr ''abc''))"
    by code_simp
  have s5: "stderr (snd (deleteStudent example_server (example_env(''PGPORT'' \<mapsto> ''abc'')) 1 (world_of [ada, bob] 2))) = []"
    by code_simp
  have m5: "str_exn (ValueError (''invalid literal for int() with base 10: '' @ py_repr ''abc'')) = ''invalid literal for int() with base 10: '' @ [CHR 0x27] @ ''abc'' @ [CHR 0x27]"
    by code_simp
  from main_catches_errors[where srv="example_server" and env="example_env(''PGPORT'' \<mapsto> ''abc'')" and w="world_of [ada, bob] 2" and e="ValueError (''invalid literal for int() with base 10: '' @ py_repr ''abc'')" and c="GetAll" and f="[]" and l="[]" and em="[]" and dt="None" and sid="1" and i="0" and n="0"] h5 s5 m5
  have r5: "fst (main example_server (example_env(''PGPORT'' \<mapsto> ''abc'')) (Delete 1) (world_of [ada, bob] 2)) = 1 \<and> stderr (snd (main example_server (example_env(''PGPORT'' \<mapsto> ''abc'')) (Delete 1) (world_of [ada, bob] 2))) = [''ERROR: invalid literal for int() with base 10: '' @ [CHR 0x27] @ ''abc'' @ [CHR 0x27]]"
    by (simp add: world_of_def)
  have a6: "fst (addStudent flaky_server example_env (Some ''Eve'') (Some ''Moss'') (Some ''eve@example.com'') None (world_of [ada, bob] 2)) = Inr 3"
    by code_simp
  have h6: "fst (getAllStudents flaky_server example_env (snd (print (''Inserted student_id='' @ str_int 3) (snd (addStudent flaky_server example_env (Some ''Eve'') (Some ''Moss'') (Some ''eve@example.com'') None (world_of [ada, bob] 2)))))) = Inl (OperationalError ''connection refused'')"
    by code_simp
  have s6: "stderr (snd (getAllStudents flaky_server example_env (snd (print (''Inserted student_id='' @ str_int 3) (snd (addStudent flaky_server example_env (Some ''Eve'') (Some ''Moss'') (Some ''eve@example.com'') None (world_of [ada, bob] 2))))))) = []"
    by code_simp
  from main_catches_errors[where srv="flaky_server" and env="example_env" and w="world_of [ada, bob] 2" and e="OperationalError ''connection refused''" and c="GetAll" and f="''Eve''" and l="''Moss''" and em="''eve@example.com''" and dt="None" and sid="0" and i="3" and n="0"] a6 h6 s6
  have r6: "fst (main flaky_server example_env (Add ''Eve'' ''Moss'' ''eve@example.com'' None) (world_of [ada, bob] 2)) = 1 \<and> stderr (snd (main flaky_server example_env (Add ''Eve'' ''Moss'' ''eve@example.com'' None) (world_of [ada, bob] 2))) = [''ERROR: connection refused'']"
    by simp
  have a7: "fst (updateStudentEmail flaky_server example_env 1 ''new@example.com'' (world_of [ada, bob] 2)) = Inr 1"
    by code_simp
  have h7: "fst (getAllStudents flaky_server example_env (snd (print (''Rows updated: '' @ str_int (int 1)) (snd (updateStudentEmail flaky_server example_env 1 ''new@example.com'' (world_of [ada, bob] 2)))))) = Inl (OperationalError ''connection refused'')"
    by code_simp
  have s7: "stderr (snd (getAllStudents flaky_server example_env (snd (print (''Rows updated: '' @ str_int (int 1)) (snd (updateStudentEmail flaky_server example_env 1 ''new@example.com'' (world_of [ada, bob] 2))))))) = []"
    by code_simp
  from main_catches_errors[where srv="flaky_server" and env="example_env" and w="world_of [ada, bob] 2" and e="OperationalError ''connection refused''" and c="GetAll" and f="[]" and l="[]" and em="''new@example.com''" and dt="None" and sid="1" and i="0" and n="1"] a7 h7 s7
  have r7: "fst (main flaky_server example_env (UpdateEmail 1 ''new@example.com'') (world_of [ada, bob] 2)) = 1 \<and> stderr (snd (main flaky_server example_env (UpdateEmail 1 ''new@example.com'') (world_of [ada, bob] 2))) = [''ERROR: connection refused'']"
    by simp
  have a8: "fst (deleteStudent flaky_server example_env 2 (world_of [ada, bob] 2)) = Inr 1"
    by code_simp
  have h8: "fst (getAllStudents flaky_server example_env (snd (print (''Rows deleted: '' @ str_int (int 1)) (snd (deleteStudent flaky_server example_env 2 (world_of [ada, bob] 2)))))) = Inl (OperationalError ''connection refused'')"
    by code_simp
  have s8: "stderr (snd (getAllStudents flaky_server example_env (snd (print (''Rows deleted: '' @ str_int (int 1)) (snd (deleteStudent flaky_server example_env 2 (world_of [ada, bob] 2))))))) = []"
    by code_simp
  from main_catches_errors[where srv="flaky_server" and env="example_env" and w="world_of [ada, bob] 2" and e="OperationalError ''connection refused''" and c="GetAll" and f="[]" and l="[]" and em="[]" and dt="None" and sid="2" and i="0" and n="1"] a8 h8 s8
  have r8: "fst (main flaky_server example_env (Delete 2) (world_of [ada, bob] 2)) = 1 \<and> stderr (snd (main flaky_server example_env (Delete 2) (world_of [ada, bob] 2))) = [''ERROR: connection refused'']"
    by simp
  from r1 r2 r3 r4 r5 r6 r7 r8 show ?thesis by blast
qed

end
